theory Spec2Isabelle
  imports Main
begin

section \<open>Strings of the Go standard library, on bytes\<close>

text \<open>
  A Go string is a byte sequence; it is modelled as a \<open>string\<close> (a list of 8-bit
  characters). The library functions below are the ones the program calls. Where Go decodes
  UTF-8 (white space, the regular expression), the model works on the encoded bytes.
\<close>

definition HasPrefix :: "string \<Rightarrow> string \<Rightarrow> bool" where
  "HasPrefix s p = (take (length p) s = p)"

definition asciiSpace :: "char \<Rightarrow> bool" where
  "asciiSpace c = (c = CHR 0x09 \<or> c = CHR 0x0A \<or> c = CHR 0x0B \<or> c = CHR 0x0C
                   \<or> c = CHR 0x0D \<or> c = CHR 0x20)"

text \<open>
  \<open>space_width s\<close> is the number of bytes of the white-space rune \<open>s\<close> starts with
  (as \<open>unicode.IsSpace\<close> decides it), and 0 when \<open>s\<close> does not start with one. The
  runes beyond ASCII are U+0085, U+00A0, U+1680, U+2000 to U+200A, U+2028, U+2029, U+202F,
  U+205F and U+3000, in their UTF-8 encodings.
\<close>

definition space3 :: "char \<Rightarrow> char \<Rightarrow> char \<Rightarrow> bool" where
  "space3 a b c =
     ((a = CHR 0xE1 \<and> b = CHR 0x9A \<and> c = CHR 0x80)
      \<or> (a = CHR 0xE2 \<and> b = CHR 0x80
          \<and> ((0x80 \<le> (of_char c :: nat) \<and> (of_char c :: nat) \<le> 0x8A)
              \<or> c = CHR 0xA8 \<or> c = CHR 0xA9 \<or> c = CHR 0xAF))
      \<or> (a = CHR 0xE2 \<and> b = CHR 0x81 \<and> c = CHR 0x9F)
      \<or> (a = CHR 0xE3 \<and> b = CHR 0x80 \<and> c = CHR 0x80))"

fun space_width :: "string \<Rightarrow> nat" where
  "space_width [] = 0"
| "space_width (a # s) =
     (if asciiSpace a then 1
      else case s of
          [] \<Rightarrow> 0
        | b # s' \<Rightarrow>
            if a = CHR 0xC2 \<and> (b = CHR 0x85 \<or> b = CHR 0xA0) then 2
            else case s' of
                [] \<Rightarrow> 0
              | c # _ \<Rightarrow> if space3 a b c then 3 else 0)"

text \<open>\<open>strings.Fields\<close>: the maximal runs of non-space runes, in order.\<close>

fun fields_from :: "string \<Rightarrow> string \<Rightarrow> string list" where
  "fields_from w [] = (if w = [] then [] else [w])"
| "fields_from w (c # cs) =
     (if space_width (c # cs) > 0
      then (if w = [] then [] else [w]) @ fields_from [] (drop (space_width (c # cs) - 1) cs)
      else fields_from (w @ [c]) cs)"

definition Fields :: "string \<Rightarrow> string list" where
  "Fields s = fields_from [] s"

text \<open>\<open>strings.TrimSpace\<close>: leading and trailing white-space runes removed.\<close>

fun trim_left :: "string \<Rightarrow> string" where
  "trim_left [] = []"
| "trim_left (c # cs) =
     (if space_width (c # cs) > 0 then trim_left (drop (space_width (c # cs) - 1) cs)
      else c # cs)"

definition last_space_width :: "string \<Rightarrow> nat" where
  "last_space_width s =
     (case rev s of
        [] \<Rightarrow> 0
      | c # r \<Rightarrow>
          if asciiSpace c then 1
          else case r of
              [] \<Rightarrow> 0
            | b # r' \<Rightarrow>
                if b = CHR 0xC2 \<and> (c = CHR 0x85 \<or> c = CHR 0xA0) then 2
                else case r' of
                    [] \<Rightarrow> 0
                  | a # _ \<Rightarrow> if space3 a b c then 3 else 0)"

function trim_right :: "string \<Rightarrow> string" where
  "trim_right s =
     (if last_space_width s > 0 \<and> s \<noteq> []
      then trim_right (take (length s - last_space_width s) s) else s)"
  by pat_completeness auto
termination
  by (relation "measure length") auto

declare trim_right.simps [simp del]

definition TrimSpace :: "string \<Rightarrow> string" where
  "TrimSpace s = trim_right (trim_left s)"

text \<open>\<open>strings.Split(s, "=")[0]\<close>: the part of \<open>s\<close> before its first \<open>=\<close>.\<close>

definition before_eq :: "string \<Rightarrow> string" where
  "before_eq s = takeWhile (\<lambda>c. c \<noteq> CHR ''='') s"

section \<open>Errors\<close>

text \<open>
  \<open>ErrSkipBuild\<close> is the package's sentinel. \<open>Errorf\<close> is an error made by
  \<open>fmt.Errorf\<close> with the given message; \<open>SysError\<close> is any error that comes back
  from the operating system, the scanner, the JSON decoder or a child process. \<open>Panic\<close>
  is a run-time panic: it unwinds the callers, running their deferred calls, and ends the
  program; it is modelled as a result that every caller passes on.
\<close>

datatype error = ErrSkipBuild | Errorf string | SysError string | Panic string

section \<open>The Dockerfile preprocessor\<close>

text \<open>
  A \<open>reader\<close> is what \<open>bufio.Scanner\<close> does on an input: the lines \<open>Scan\<close> yields, in
  order and without their line ends, before it first returns false; and how it stopped.
  That is \<open>None\<close> at the end of the input, where \<open>Err()\<close> is nil and every further
  \<open>Scan\<close> returns false. Otherwise it is the error \<open>Err()\<close> reports, with the token one
  more call of \<open>Scan\<close> still yields, if any: after \<open>ErrTooLong\<close> the scanner hands out
  the bytes left in its buffer as a last token.
\<close>

type_synonym reader = "string list \<times> (error \<times> string option) option"

definition scanner_Err :: "(error \<times> string option) option \<Rightarrow> error option" where
  "scanner_Err stop = map_option fst stop"

definition late_token :: "(error \<times> string option) option \<Rightarrow> string option" where
  "late_token stop = (case stop of None \<Rightarrow> None | Some (err, late) \<Rightarrow> late)"

text \<open>
  \<open>toMap\<close> is not part of the listed source; it is a parameter here: the function that
  parses an architecture-map comment line into a map from architecture to image.
\<close>

type_synonym arch_parser = "string \<Rightarrow> (string \<rightharpoonup> string)"

text \<open>The condition of the \<open>if\<close> of \<open>dapperFile\<close>, before the lookahead \<open>Scan\<close>.\<close>

definition isFromLine :: "string \<Rightarrow> bool" where
  "isFromLine line = (HasPrefix line ''FROM '' \<and> length (Fields line) = 2)"

text \<open>
  The loop of \<open>dapperFile\<close>, on the lines the scanner still holds and the buffer written
  so far; \<open>late\<close> is the token the scanner yields after its first false. \<open>Inl
  ErrSkipBuild\<close> is the early return; \<open>Inr\<close> carries the buffer when the \<open>Scan\<close> of
  the \<open>for\<close> returns false. When the lookahead \<open>Scan\<close> returns false, the line is
  written and the \<open>Scan\<close> of the \<open>for\<close> is called once more: a late token is then
  one more line, and whether it is a FROM line or not it is written as it is, since no
  further \<open>Scan\<close> succeeds.
\<close>

fun scan_loop ::
  "arch_parser \<Rightarrow> string \<Rightarrow> string option \<Rightarrow> string list \<Rightarrow> string \<Rightarrow> error + string" where
  "scan_loop toMap hostArch late [] buffer = Inr buffer"
| "scan_loop toMap hostArch late (line # rest) buffer =
     (if isFromLine line then
        (case rest of
           [] \<Rightarrow>
             (case late of
                None \<Rightarrow> Inr (buffer @ line @ ''\<newline>'')
              | Some token \<Rightarrow> Inr ((buffer @ line @ ''\<newline>'') @ token @ ''\<newline>''))
         | nextLine # rest' \<Rightarrow>
             if HasPrefix nextLine ''# FROM'' then
               (case toMap nextLine hostArch of
                  Some baseImage \<Rightarrow>
                    if baseImage = ''skip'' then Inl ErrSkipBuild
                    else scan_loop toMap hostArch late rest'
                           (buffer @ (''FROM '' @ baseImage) @ ''\<newline>'' @ nextLine @ ''\<newline>'')
                | None \<Rightarrow>
                    scan_loop toMap hostArch late rest'
                      (buffer @ line @ ''\<newline>'' @ nextLine @ ''\<newline>''))
             else scan_loop toMap hostArch late rest'
                    (buffer @ line @ ''\<newline>'' @ nextLine @ ''\<newline>''))
      else scan_loop toMap hostArch late rest (buffer @ line @ ''\<newline>''))"

text \<open>
  \<open>dapperFile\<close>: the input is the standard input in contextless mode and the file
  otherwise, whose opening may fail. The result is Go's pair of the bytes and the error.
\<close>

definition dapperFile ::
  "arch_parser \<Rightarrow> bool \<Rightarrow> string \<Rightarrow> reader \<Rightarrow> (error + reader) \<Rightarrow> string \<times> error option" where
  "dapperFile toMap noContext hostArch stdin opened =
     (case (if noContext then Inr stdin else opened) of
        Inl err \<Rightarrow> ([], Some err)
      | Inr (lines, stop) \<Rightarrow>
          (case scan_loop toMap hostArch (late_token stop) lines [] of
             Inl e \<Rightarrow> ([], Some e)
           | Inr buffer \<Rightarrow> (buffer, scanner_Err stop)))"

section \<open>More of the standard library\<close>

text \<open>\<open>strings.ToLower\<close>: on an ASCII string the upper-case letters are mapped byte by
  byte; on any other string Go applies the Unicode case tables, which are a parameter.\<close>

definition isASCII :: "string \<Rightarrow> bool" where
  "isASCII s = (\<forall>c \<in> set s. (of_char c :: nat) < 0x80)"

definition lower_byte :: "char \<Rightarrow> char" where
  "lower_byte c =
     (if (of_char (CHR ''A'') :: nat) \<le> of_char c \<and> (of_char c :: nat) \<le> of_char (CHR ''Z'')
      then char_of ((of_char c :: nat) + 32) else c)"

definition ToLower :: "(string \<Rightarrow> string) \<Rightarrow> string \<Rightarrow> string" where
  "ToLower unicode_lower s = (if isASCII s then map lower_byte s else unicode_lower s)"

text \<open>\<open>filepath.Base\<close> on a Unix host.\<close>

definition Base :: "string \<Rightarrow> string" where
  "Base path =
     (if path = [] then ''.''
      else let p = rev (dropWhile (\<lambda>c. c = CHR ''/'') (rev path));
               p = rev (takeWhile (\<lambda>c. c \<noteq> CHR ''/'') (rev p))
           in if p = [] then ''/'' else p)"

text \<open>\<open>utf8.DecodeRuneInString\<close>: the width of the first rune, 1 for an invalid byte.\<close>

definition cont :: "char \<Rightarrow> bool" where
  "cont c = (0x80 \<le> (of_char c :: nat) \<and> (of_char c :: nat) \<le> 0xBF)"

definition accepts :: "nat \<Rightarrow> char \<Rightarrow> bool" where
  "accepts x b =
     ((if x = 0xE0 then 0xA0 else if x = 0xF0 then 0x90 else 0x80) \<le> (of_char b :: nat)
      \<and> (of_char b :: nat) \<le> (if x = 0xED then 0x9F else if x = 0xF4 then 0x8F else 0xBF))"

fun rune_width :: "string \<Rightarrow> nat" where
  "rune_width [] = 0"
| "rune_width (a # s) =
     (let x = (of_char a :: nat) in
      if 0xC2 \<le> x \<and> x \<le> 0xDF then
        (case s of b # _ \<Rightarrow> if accepts x b then 2 else 1 | _ \<Rightarrow> 1)
      else if 0xE0 \<le> x \<and> x \<le> 0xEF then
        (case s of b # c # _ \<Rightarrow> if accepts x b \<and> cont c then 3 else 1 | _ \<Rightarrow> 1)
      else if 0xF0 \<le> x \<and> x \<le> 0xF4 then
        (case s of b # c # d # _ \<Rightarrow> if accepts x b \<and> cont c \<and> cont d then 4 else 1 | _ \<Rightarrow> 1)
      else 1)"

text \<open>The class \<open>[a-zA-Z0-9]\<close>, and \<open>re.ReplaceAllLiteralString(s, "-")\<close> for the
  package's \<open>re = [^a-zA-Z0-9]\<close>: every rune outside the class becomes one \<open>-\<close>.\<close>

definition alnum :: "char \<Rightarrow> bool" where
  "alnum c =
     (let x = (of_char c :: nat) in
      (0x61 \<le> x \<and> x \<le> 0x7A) \<or> (0x41 \<le> x \<and> x \<le> 0x5A) \<or> (0x30 \<le> x \<and> x \<le> 0x39))"

fun re_replace :: "string \<Rightarrow> string" where
  "re_replace [] = []"
| "re_replace (c # cs) =
     (if alnum c then c # re_replace cs
      else CHR ''-'' # re_replace (drop (rune_width (c # cs) - 1) cs))"

text \<open>\<open>path.Clean\<close>, \<open>path.Join\<close> and \<open>path.Dir\<close>.\<close>

fun split_slash :: "string \<Rightarrow> string \<Rightarrow> string list" where
  "split_slash w [] = [w]"
| "split_slash w (c # cs) =
     (if c = CHR ''/'' then w # split_slash [] cs else split_slash (w @ [c]) cs)"

definition clean_step :: "bool \<Rightarrow> string \<Rightarrow> string list \<Rightarrow> string list" where
  "clean_step rooted c st =
     (if c = ''..'' then
        (if st \<noteq> [] \<and> last st \<noteq> ''..'' then butlast st
         else if rooted then st else st @ [c])
      else st @ [c])"

fun join_slash :: "string list \<Rightarrow> string" where
  "join_slash [] = []"
| "join_slash [x] = x"
| "join_slash (x # y # ys) = x @ ''/'' @ join_slash (y # ys)"

definition Clean :: "string \<Rightarrow> string" where
  "Clean path =
     (if path = [] then ''.''
      else let rooted = (hd path = CHR ''/'');
               comps = filter (\<lambda>c. c \<noteq> [] \<and> c \<noteq> ''.'') (split_slash [] path);
               out = (if rooted then ''/'' else []) @ join_slash (fold (clean_step rooted) comps [])
           in if out = [] then ''.'' else out)"

definition path_Join :: "string list \<Rightarrow> string" where
  "path_Join elems =
     (let nonempty = filter (\<lambda>e. e \<noteq> []) elems
      in if nonempty = [] then [] else Clean (join_slash nonempty))"

definition path_Dir :: "string \<Rightarrow> string" where
  "path_Dir path =
     Clean (rev (dropWhile (\<lambda>c. c \<noteq> CHR ''/'') (rev path)))"

text \<open>\<open>%d\<close> of \<open>fmt.Sprintf\<close> on an \<open>int\<close>.\<close>

fun show_nat :: "nat \<Rightarrow> string" where
  "show_nat n =
     (if n < 10 then [char_of (48 + n)] else show_nat (n div 10) @ [char_of (48 + n mod 10)])"

declare show_nat.simps [simp del]

definition show_int :: "int \<Rightarrow> string" where
  "show_int i = (if i < 0 then CHR ''-'' # show_nat (nat (- i)) else show_nat (nat i))"

section \<open>The data of the program\<close>

text \<open>
  The runtime configuration \<open>Context\<close> is a map from names to values with accessor
  methods; its declaration and the methods are not part of the listed source. The program
  reads the map through the accessors only, so \<open>d.env\<close> is taken as the record of the
  values the accessors return on the map: \<open>Source()\<close>, \<open>Cp()\<close>, \<open>Socket()\<close>,
  \<open>Mode(mode)\<close>, \<open>Env()\<close>, \<open>RunArgs()\<close>, \<open>Output()\<close> and \<open>Shell()\<close>. What they
  return on a given map is a parameter (\<open>accessors\<close> below).
\<close>

record Context =
  env_Source :: string
  env_Cp :: string
  env_Socket :: bool
  env_Mode :: "string \<Rightarrow> string"
  env_Env :: "string list"
  env_RunArgs :: "string list"
  env_Output :: "string list"
  env_Shell :: string

record Dapperfile =
  File :: string
  Mode :: string
  docker :: string
  env :: Context
  Socket :: bool
  NoOut :: bool
  Args :: "string \<rightharpoonup> string"
  From :: string
  Quiet :: bool
  Bake :: bool
  CacheFrom :: "string list"
  CacheTo :: "string list"
  hostArch :: string
  Keep :: bool
  NoContext :: bool
  MountSuffix :: string
  Target :: string

text \<open>The types of package \<open>bake\<close>.\<close>

record bake_Target =
  t_Args :: "string \<rightharpoonup> string"
  t_Context :: string
  t_Contexts :: "string \<rightharpoonup> string"
  t_CacheFrom :: "string list"
  t_CacheTo :: "string list"
  t_Dockerfile :: string
  t_DockerfileInline :: string
  t_Outputs :: "string list"
  t_Tags :: "string list"
  t_Target :: string

record bake_Group =
  g_Targets :: "string list"

record bake_File =
  Groups :: "string \<rightharpoonup> bake_Group"
  Targets :: "string \<rightharpoonup> bake_Target"

text \<open>
  What a child process reads on its standard input: the preprocessed Dockerfile, or the
  JSON encoding of a build graph (\<open>json.Marshal\<close> does not fail on a \<open>bake.File\<close>; the
  document is represented by the value it encodes).
\<close>

datatype payload = Bytes string | Json bake_File

text \<open>
  The effects of a call, in the order they happen: child processes of the container engine
  (\<open>exec\<close>, \<open>execWithStdin\<close>, \<open>execWithOutput\<close> and the \<open>CombinedOutput\<close> of
  \<open>readEnv\<close>), the VCS query, file system changes, and the log lines written by the
  functions modelled here (the log lines inside the three execution primitives \<open>exec\<close>,
  \<open>execWithStdin\<close> and \<open>runExec\<close> are left out).
\<close>

datatype event =
    Exec "string list"
  | ExecStdin payload "string list"
  | ExecOutput "string list"
  | ExecGit "string list"
  | Tempfile string
  | Remove string
  | MkdirAll string
  | Debugf string
  | Infof string
  | LogErrorf string

text \<open>
  The host: everything the program reads from outside, and the outcome of every effect.
  The functions \<open>toMap\<close>, \<open>randString\<close>, \<open>vSocket\<close>, \<open>tempfile\<close> and the accessors of
  \<open>Context\<close> are not part of the listed source and are parameters too. \<open>tag_rand\<close> and
  \<open>name_rand\<close> are what \<open>randString()\<close> returns in \<open>tag\<close> and in \<open>runArgs\<close>;
  \<open>range_keys\<close> is the order in which a \<open>range\<close> visits the keys of a map;
  \<open>json_strings\<close> is \<open>json.Unmarshal\<close> into a slice of strings. The outcome of a child
  process or of a file system call is a function of its arguments.
\<close>

record host =
  toMap :: arch_parser
  environ :: "string \<rightharpoonup> string"
  stdin :: reader
  open_file :: "string \<Rightarrow> error + reader"
  getwd :: "error + string"
  git_output :: string
  unicode_lower :: "string \<Rightarrow> string"
  tag_rand :: string
  name_rand :: string
  isatty :: bool
  getuid :: int
  getgid :: int
  vSocket :: string
  GOARCH :: string
  docker_run :: "string list \<Rightarrow> error option"
  docker_run_stdin :: "payload \<Rightarrow> string list \<Rightarrow> error option"
  docker_output :: "string list \<Rightarrow> error + string"
  json_strings :: "string \<Rightarrow> error + string list"
  accessors :: "(string \<rightharpoonup> string) \<Rightarrow> Context"
  tempfile :: "string \<Rightarrow> error + string"
  remove_file :: "string \<Rightarrow> error option"
  mkdir_all :: "string \<Rightarrow> error option"
  range_keys :: "(string \<rightharpoonup> string) \<Rightarrow> string list"

text \<open>\<open>err.Error()\<close>, as \<open>%s\<close> and \<open>%v\<close> print an error.\<close>

fun Error :: "error \<Rightarrow> string" where
  "Error ErrSkipBuild = ''skip build''"
| "Error (Errorf m) = m"
| "Error (SysError m) = m"
| "Error (Panic m) = m"

section \<open>Build arguments from the environment\<close>

definition Getenv :: "(string \<rightharpoonup> string) \<Rightarrow> string \<Rightarrow> string" where
  "Getenv e key = (case e key of None \<Rightarrow> [] | Some v \<Rightarrow> v)"

definition findHostArch :: "host \<Rightarrow> string" where
  "findHostArch h =
     (case docker_output h [''version'', ''-f'', ''{{.Server.Arch}}''] of
        Inl err \<Rightarrow> GOARCH h
      | Inr output \<Rightarrow> TrimSpace output)"

text \<open>The loop of \<open>argsFromEnv\<close>; the state is the map \<open>r\<close> and the field \<open>d.hostArch\<close>.\<close>

fun args_loop ::
  "host \<Rightarrow> string list \<Rightarrow> (string \<rightharpoonup> string) \<times> string \<Rightarrow> (string \<rightharpoonup> string) \<times> string" where
  "args_loop h [] (r, arch) = (r, arch)"
| "args_loop h (text # rest) (r, arch) =
     (let line = TrimSpace text; fields = Fields line in
      if length fields \<le> 1 then args_loop h rest (r, arch)
      else if fields ! 0 \<noteq> ''ARG'' then args_loop h rest (r, arch)
      else
        let key = before_eq (fields ! 1);
            value0 = Getenv (environ h) key;
            value = (if key = ''DAPPER_HOST_ARCH'' \<and> value0 = [] then findHostArch h else value0);
            arch' = (if key = ''DAPPER_HOST_ARCH'' then value else arch);
            r' = (if value \<noteq> [] then r(key \<mapsto> value) else r)
        in args_loop h rest (r', arch'))"

text \<open>\<open>argsFromEnv\<close> returns the map, or the error of opening the file; the second
  component is the \<open>Dapperfile\<close> with \<open>hostArch\<close> as the loop left it.\<close>

definition argsFromEnv ::
  "Dapperfile \<Rightarrow> host \<Rightarrow> string \<Rightarrow> (error + (string \<rightharpoonup> string)) \<times> Dapperfile" where
  "argsFromEnv d h dockerfile =
     (case open_file h dockerfile of
        Inl err \<Rightarrow> (Inl err, d)
      | Inr (lines, scanErr) \<Rightarrow>
          (let (r, arch) = args_loop h lines (Map.empty, hostArch d)
           in (Inr r, d\<lparr>hostArch := arch\<rparr>)))"

section \<open>The tag\<close>

definition tag :: "host \<Rightarrow> string" where
  "tag h =
     (let cwd = (case getwd h of Inr wd \<Rightarrow> Base wd | Inl err \<Rightarrow> ''dapper-unknown'');
          cwd = ToLower (unicode_lower h) cwd;
          t = TrimSpace (git_output h);
          t = (if t = [] then tag_rand h else t);
          t = re_replace t
      in cwd @ '':'' @ t)"

definition tag_events :: "event list" where
  "tag_events = [ExecGit [''rev-parse'', ''--abbrev-ref'', ''HEAD'']]"

section \<open>Run arguments\<close>

definition IsBind :: "Dapperfile \<Rightarrow> bool" where
  "IsBind d = (env_Mode (env d) (Mode d) = ''bind'')"

definition runArgs ::
  "Dapperfile \<Rightarrow> host \<Rightarrow> string \<Rightarrow> string \<Rightarrow> string list \<Rightarrow> string \<times> string list" where
  "runArgs d h tg shell commandArgs =
     (let name = takeWhile (\<lambda>c. c \<noteq> CHR '':'') tg @ ''-'' @ name_rand h;
          args = [''-i'', ''--name'', name];
          args = (if isatty h then args @ [''-t''] else args);
          args = (if env_Socket (env d) \<or> Socket d then args @ [''-v'', vSocket h] else args);
          args = (if IsBind d then
                    (case getwd h of
                       Inr wd \<Rightarrow>
                         (let suffix = (if MountSuffix d \<noteq> [] then '':'' @ MountSuffix d else [])
                          in args @ [''-v'', (wd @ ''/'' @ env_Cp (env d)) @ '':''
                                              @ env_Source (env d) @ suffix])
                     | Inl err \<Rightarrow> args)
                  else args);
          args = args @ [''-e'', ''DAPPER_UID='' @ show_int (getuid h)];
          args = args @ [''-e'', ''DAPPER_GID='' @ show_int (getgid h)];
          args = fold (\<lambda>e a. a @ [''-e'', e]) (env_Env (env d)) args;
          args = (if shell \<noteq> [] then (args @ [''--entrypoint'', shell]) @ [''-e'', ''TERM'']
                  else args);
          args = args @ env_RunArgs (env d);
          args = args @ [tg];
          args = (if shell \<noteq> [] \<and> length commandArgs = 0 then args @ [''-''] else args @ commandArgs)
      in (name, args))"

section \<open>Building\<close>

text \<open>\<open>%v\<close> of a slice of strings, and \<open>%t\<close> of a boolean.\<close>

fun join_space :: "string list \<Rightarrow> string" where
  "join_space [] = []"
| "join_space [x] = x"
| "join_space (x # y # ys) = x @ '' '' @ join_space (y # ys)"

definition show_strings :: "string list \<Rightarrow> string" where
  "show_strings xs = ''['' @ join_space xs @ '']''"

definition show_bool :: "bool \<Rightarrow> string" where
  "show_bool b = (if b then ''true'' else ''false'')"

text \<open>
  The loop of \<open>readEnv\<close> over the decoded list, on the map filled so far.
  \<open>strings.SplitN(item, "=", 2)\<close> has one part only when the item has no \<open>=\<close>, and
  \<open>parts[1]\<close> then panics.
\<close>

fun readEnv_items ::
  "string list \<Rightarrow> (string \<rightharpoonup> string) \<Rightarrow> error option \<times> (string \<rightharpoonup> string) \<times> event list" where
  "readEnv_items [] m = (None, m, [])"
| "readEnv_items (item # rest) m =
     (if CHR ''='' \<in> set item then
        (let k = takeWhile (\<lambda>c. c \<noteq> CHR ''='') item;
             v = tl (dropWhile (\<lambda>c. c \<noteq> CHR ''='') item)
         in case readEnv_items rest (m(k \<mapsto> v)) of
              (r, m', ev) \<Rightarrow> (r, m', Debugf (''Reading Env: '' @ k @ ''='' @ v) # ev))
      else (Some (Panic ''runtime error: index out of range [1] with length 1''), m, []))"

text \<open>\<open>readEnv\<close> returns its error, the \<open>Dapperfile\<close> with the new \<open>d.env\<close>, and its
  effects.\<close>

definition readEnv :: "Dapperfile \<Rightarrow> host \<Rightarrow> string \<Rightarrow> error option \<times> Dapperfile \<times> event list" where
  "readEnv d h tg =
     (let args = [''inspect'', ''-f'', ''{{json .Config.Env}}'', tg] in
      case docker_output h args of
        Inl err \<Rightarrow>
          (Some err, d,
           [ExecOutput args,
            LogErrorf (''Failed to run docker '' @ show_strings args @ '': '' @ Error err)])
      | Inr output \<Rightarrow>
          (case json_strings h output of
             Inl err \<Rightarrow> (Some err, d, [ExecOutput args])
           | Inr envList \<Rightarrow>
               (case readEnv_items envList Map.empty of
                  (Some p, m, ev) \<Rightarrow> (Some p, d\<lparr>env := accessors h m\<rparr>, ExecOutput args # ev)
                | (None, m, ev) \<Rightarrow>
                    (let d' = d\<lparr>env := accessors h m\<rparr> in
                     (None, d',
                      ExecOutput args # ev
                      @ [Debugf (''Source: '' @ env_Source (env d')),
                         Debugf (''Cp: '' @ env_Cp (env d')),
                         Debugf (''Socket: '' @ show_bool (env_Socket (env d'))),
                         Debugf (''Mode: '' @ env_Mode (env d') (Mode d')),
                         Debugf (''Env: '' @ show_strings (env_Env (env d'))),
                         Debugf (''Output: '' @ show_strings (env_Output (env d')))])))))"

definition buildWithContent ::
  "Dapperfile \<Rightarrow> host \<Rightarrow> string \<Rightarrow> string \<Rightarrow> error option \<times> event list" where
  "buildWithContent d h tg content =
     (case tempfile h content of
        Inl err \<Rightarrow> (Some err, [Tempfile content])
      | Inr tf \<Rightarrow>
          (docker_run h [''build'', ''-t'', tg, ''-f'', tf, ''.''],
           [Tempfile content, Exec [''build'', ''-t'', tg, ''-f'', tf, ''.''],
            Debugf (''Deleting tempfile '' @ tf), Remove tf]
           @ (case remove_file h tf of
                Some err \<Rightarrow> [LogErrorf (''Failed to delete tempfile '' @ tf @ '': '' @ Error err)]
              | None \<Rightarrow> [])))"

text \<open>The zero values Go returns when a map has no entry for a key.\<close>

definition zero_Target :: bake_Target where
  "zero_Target =
     \<lparr>t_Args = Map.empty, t_Context = [], t_Contexts = Map.empty, t_CacheFrom = [],
      t_CacheTo = [], t_Dockerfile = [], t_DockerfileInline = [], t_Outputs = [],
      t_Tags = [], t_Target = []\<rparr>"

definition zero_Group :: bake_Group where
  "zero_Group = \<lparr>g_Targets = []\<rparr>"

text \<open>The graph \<open>bake\<close> starts from: the group \<open>default\<close> and the target \<open>stage1\<close>.\<close>

definition stage1_bakefile :: "Dapperfile \<Rightarrow> string \<Rightarrow> string \<Rightarrow> bake_File" where
  "stage1_bakefile d contextPath tg =
     \<lparr>Groups = [''default'' \<mapsto> \<lparr>g_Targets = [''stage1'']\<rparr>],
      Targets = [''stage1'' \<mapsto>
        \<lparr>t_Args = Args d, t_Context = contextPath, t_Contexts = Map.empty,
         t_CacheFrom = CacheFrom d, t_CacheTo = CacheTo d, t_Dockerfile = File d,
         t_DockerfileInline = [], t_Outputs = [''type=docker''], t_Tags = [tg],
         t_Target = Target d\<rparr>]\<rparr>"

text \<open>The body of \<open>if copy && !d.IsBind()\<close> in \<open>bake\<close>.\<close>

definition add_stage2 :: "Dapperfile \<Rightarrow> bake_File \<Rightarrow> bake_File" where
  "add_stage2 d bakefile =
     (let defaultGroup = (case Groups bakefile ''default'' of Some g \<Rightarrow> g | None \<Rightarrow> zero_Group);
          defaultGroup = defaultGroup\<lparr>g_Targets := g_Targets defaultGroup @ [''stage2'']\<rparr>;
          bakefile = bakefile\<lparr>Groups := (Groups bakefile)(''default'' \<mapsto> defaultGroup)\<rparr>;
          stage1 = (case Targets bakefile ''stage1'' of Some t \<Rightarrow> t | None \<Rightarrow> zero_Target);
          bakefile = bakefile\<lparr>Targets := (Targets bakefile)(''stage2'' \<mapsto>
            zero_Target\<lparr>t_Context := t_Context stage1,
              t_DockerfileInline :=
                ''FROM stage1\<newline>COPY '' @ env_Cp (env d) @ '' '' @ env_Source (env d),
              t_Contexts := [''stage1'' \<mapsto> ''target:stage1''],
              t_CacheFrom := t_CacheFrom stage1,
              t_CacheTo := t_CacheTo stage1,
              t_Outputs := t_Outputs stage1,
              t_Tags := t_Tags stage1\<rparr>)\<rparr>;
          stage1 = stage1\<lparr>t_Outputs := [''type=cacheonly'']\<rparr>;
          stage1 = stage1\<lparr>t_CacheFrom := []\<rparr>;
          stage1 = stage1\<lparr>t_CacheTo := []\<rparr>;
          stage1 = stage1\<lparr>t_Tags := []\<rparr>
      in bakefile\<lparr>Targets := (Targets bakefile)(''stage1'' \<mapsto> stage1)\<rparr>)"

text \<open>The graph \<open>bake\<close> marshals and submits.\<close>

definition bakefile_of :: "Dapperfile \<Rightarrow> host \<Rightarrow> string list \<Rightarrow> bool \<Rightarrow> bake_File" where
  "bakefile_of d h args copy =
     (let contextPath = (if length args > 0 then args ! 0 else ''.'');
          bakefile = stage1_bakefile d contextPath (tag h)
      in if copy \<and> \<not> IsBind d then add_stage2 d bakefile else bakefile)"

definition bake ::
  "Dapperfile \<Rightarrow> host \<Rightarrow> string list \<Rightarrow> bool \<Rightarrow> (string \<times> error option) \<times> Dapperfile \<times> event list" where
  "bake d h args copy =
     (if NoContext d then
        (([], Some (Errorf ''contextless builds are not supported by buildkit'')), d, [])
      else
        let tg = tag h;
            ev = tag_events @ [Debugf (''Building '' @ tg @ '' using '' @ File d)];
            b = Json (bakefile_of d h args copy);
            ev = ev @ [ExecStdin b [''buildx'', ''bake'', ''-f'', ''-'']]
        in case docker_run_stdin h b [''buildx'', ''bake'', ''-f'', ''-''] of
             Some err \<Rightarrow> (([], Some err), d, ev)
           | None \<Rightarrow>
               (case readEnv d h tg of
                  (Some err, d', ev') \<Rightarrow> (([], Some err), d', ev @ ev')
                | (None, d', ev') \<Rightarrow> ((tg, None), d', ev @ ev')))"

text \<open>\<open>buildLegacy\<close> after its build command has succeeded; \<open>deferred\<close> are the effects
  of the deferred calls, which happen when the function returns.\<close>

definition legacy_after_build ::
  "Dapperfile \<Rightarrow> host \<Rightarrow> string \<Rightarrow> bool \<Rightarrow> event list \<Rightarrow> event list
     \<Rightarrow> (string \<times> error option) \<times> Dapperfile \<times> event list" where
  "legacy_after_build d h tg copy ev deferred =
     (if \<not> copy then ((tg, None), d, ev @ deferred)
      else case readEnv d h tg of
          (Some err, d', ev') \<Rightarrow> (([], Some err), d', ev @ ev' @ deferred)
        | (None, d', ev') \<Rightarrow>
            if \<not> IsBind d' then
              (case buildWithContent d' h tg
                      (''FROM '' @ tg @ ''\<newline>COPY '' @ env_Cp (env d') @ '' '' @ env_Source (env d')) of
                 (Some err, ev'') \<Rightarrow> (([], Some err), d', ev @ ev' @ ev'' @ deferred)
               | (None, ev'') \<Rightarrow> ((tg, None), d', ev @ ev' @ ev'' @ deferred))
            else ((tg, None), d', ev @ ev' @ deferred))"

definition buildLegacy ::
  "Dapperfile \<Rightarrow> host \<Rightarrow> string list \<Rightarrow> bool \<Rightarrow> (string \<times> error option) \<times> Dapperfile \<times> event list" where
  "buildLegacy d h args copy =
     (case dapperFile (toMap h) (NoContext d) (hostArch d) (stdin h) (open_file h (File d)) of
        (bytes, Some err) \<Rightarrow> (([], Some err), d, [])
      | (bytes, None) \<Rightarrow>
          let tg = tag h;
              ev = tag_events @ [Debugf (''Building '' @ tg @ '' using '' @ File d)];
              buildArgs = [''build''];
              buildArgs = (if length args = 0 then buildArgs @ [''-t'', tg] else buildArgs);
              buildArgs = (if Quiet d then buildArgs @ [''-q''] else buildArgs);
              buildArgs = (if Target d \<noteq> [] then buildArgs @ [''--target'', Target d] else buildArgs);
              buildArgs = fold (\<lambda>k a. case Args d k of
                                        Some v \<Rightarrow> a @ [''--build-arg'', k @ ''='' @ v]
                                      | None \<Rightarrow> a)
                            (range_keys h (Args d)) buildArgs
          in if NoContext d then
               (let buildArgs = (buildArgs @ [''-'']) @ args;
                    ev = ev @ [ExecStdin (Bytes bytes) buildArgs]
                in case docker_run_stdin h (Bytes bytes) buildArgs of
                     Some err \<Rightarrow> (([], Some err), d, ev)
                   | None \<Rightarrow> legacy_after_build d h tg copy ev [])
             else
               (case tempfile h bytes of
                  Inl err \<Rightarrow> (([], Some err), d, ev @ [Tempfile bytes])
                | Inr tf \<Rightarrow>
                    (let buildArgs = buildArgs @ [''-f'', tf];
                         buildArgs = (if length args > 0 then buildArgs @ args
                                      else buildArgs @ [''.'']);
                         ev = ev @ [Tempfile bytes, Exec buildArgs]
                     in case docker_run h buildArgs of
                          Some err \<Rightarrow> (([], Some err), d, ev @ [Remove tf])
                        | None \<Rightarrow> legacy_after_build d h tg copy ev [Remove tf])))"

definition build ::
  "Dapperfile \<Rightarrow> host \<Rightarrow> string list \<Rightarrow> bool \<Rightarrow> (string \<times> error option) \<times> Dapperfile \<times> event list" where
  "build d h args copy = (if Bake d then bake d h args copy else buildLegacy d h args copy)"

definition Build :: "Dapperfile \<Rightarrow> host \<Rightarrow> string list \<Rightarrow> error option \<times> Dapperfile \<times> event list" where
  "Build d h args = (case build d h args False of ((tg, err), d', ev) \<Rightarrow> (err, d', ev))"

section \<open>Running\<close>

text \<open>The loop over \<open>output\<close> in \<open>Run\<close>: the error it returns, if any, and its effects.\<close>

fun copy_back :: "host \<Rightarrow> string \<Rightarrow> string \<Rightarrow> string list \<Rightarrow> error option \<times> event list" where
  "copy_back h name source [] = (None, [])"
| "copy_back h name source (i # rest) =
     (let p = (if \<not> HasPrefix i ''/'' then path_Join [source, i] else i);
          targetDir = path_Dir i
      in case mkdir_all h targetDir of
           Some err \<Rightarrow> (Some err, [MkdirAll targetDir])
         | None \<Rightarrow>
             (let ev = [MkdirAll targetDir,
                        Infof (''docker cp '' @ p @ '' '' @ targetDir),
                        Exec [''cp'', name @ '':'' @ p, targetDir]]
                       @ (case docker_run h [''cp'', name @ '':'' @ p, targetDir] of
                            Some err \<Rightarrow>
                              [Debugf (''Error copying back '' @ [CHR 0x27] @ i @ [CHR 0x27]
                                       @ '': '' @ Error err)]
                          | None \<Rightarrow> [])
              in case copy_back h name source rest of
                   (r, ev') \<Rightarrow> (r, ev @ ev')))"

text \<open>The deferred function of \<open>Run\<close>.\<close>

definition run_cleanup :: "Dapperfile \<Rightarrow> host \<Rightarrow> string \<Rightarrow> event list" where
  "run_cleanup d h name =
     (if Keep d then [Infof (''Keeping build container '' @ name)]
      else [Debugf (''Deleting temp container '' @ name), ExecOutput [''rm'', ''-fv'', name]]
           @ (case docker_output h [''rm'', ''-fv'', name] of
                Inl err \<Rightarrow> [Debugf (''Error deleting temp container: '' @ Error err)]
              | Inr out \<Rightarrow> []))"

definition Run :: "Dapperfile \<Rightarrow> host \<Rightarrow> string list \<Rightarrow> error option \<times> Dapperfile \<times> event list" where
  "Run d0 h commandArgs =
     (case build d0 h [] True of
        ((tg, Some err), d, ev) \<Rightarrow> (Some err, d, ev)
      | ((tg, None), d, ev) \<Rightarrow>
          (let ev = ev @ [Debugf (''Running build in '' @ tg)];
               (name, args) = runArgs d h tg [] commandArgs;
               ev = ev @ [Exec (''run'' # args)]
           in case docker_run h (''run'' # args) of
                Some err \<Rightarrow> (Some err, d, ev @ run_cleanup d h name)
              | None \<Rightarrow>
                  (if \<not> IsBind d \<and> \<not> NoOut d then
                     (case copy_back h name (env_Source (env d)) (env_Output (env d)) of
                        (r, ev') \<Rightarrow> (r, d, ev @ ev' @ run_cleanup d h name))
                   else (None, d, ev @ run_cleanup d h name))))"

section \<open>Notions used to state the properties\<close>

text \<open>
  \<open>reaches toMap hostArch pre\<close>: the loop of \<open>dapperFile\<close>, started on lines that begin
  with \<open>pre\<close>, consumes exactly \<open>pre\<close> in whole iterations without returning, so that its
  next iteration starts at the line after \<open>pre\<close>. This fails when the last line of \<open>pre\<close>
  is a FROM line still waiting for its lookahead, and when a pair in \<open>pre\<close> signals skip.
\<close>

fun reaches :: "arch_parser \<Rightarrow> string \<Rightarrow> string list \<Rightarrow> bool" where
  "reaches tm a [] = True"
| "reaches tm a (l # rest) =
     (if isFromLine l then
        (case rest of
           [] \<Rightarrow> False
         | n # rest' \<Rightarrow>
             \<not> (HasPrefix n ''# FROM'' \<and> tm n a = Some ''skip'') \<and> reaches tm a rest')
      else reaches tm a rest)"

text \<open>A line declares the build argument \<open>key\<close> when \<open>argsFromEnv\<close> reads that key
  from it.\<close>

definition declares_arg :: "string \<Rightarrow> string \<Rightarrow> bool" where
  "declares_arg text key =
     (let fields = Fields (TrimSpace text)
      in \<not> length fields \<le> 1 \<and> fields ! 0 = ''ARG'' \<and> before_eq (fields ! 1) = key)"

text \<open>The characters \<open>[A-Za-z0-9:-]\<close>, and the upper-case ASCII letters.\<close>

definition tag_char :: "char \<Rightarrow> bool" where
  "tag_char c = (alnum c \<or> c = CHR '':'' \<or> c = CHR ''-'')"

definition upper :: "char \<Rightarrow> bool" where
  "upper c = (0x41 \<le> (of_char c :: nat) \<and> (of_char c :: nat) \<le> 0x5A)"

text \<open>The directory name and the ref \<open>tag\<close> starts from.\<close>

definition tag_dir :: "host \<Rightarrow> string" where
  "tag_dir h = (case getwd h of Inr wd \<Rightarrow> Base wd | Inl err \<Rightarrow> ''dapper-unknown'')"

definition tag_ref :: "host \<Rightarrow> string" where
  "tag_ref h = (if TrimSpace (git_output h) = [] then tag_rand h else TrimSpace (git_output h))"

text \<open>The effects of the copy-back step: creating a directory, and copying with \<open>cp\<close>.\<close>

fun is_copy_event :: "event \<Rightarrow> bool" where
  "is_copy_event (MkdirAll dir) = True"
| "is_copy_event (Exec args) = (take 1 args = [''cp''])"
| "is_copy_event e = False"

section \<open>A concrete host\<close>

definition example_comment :: string where
  "example_comment = ''# FROM {\"amd64\":\"Y\",\"arm64\":\"skip\"}''"

text \<open>A parser that knows this one comment line.\<close>

definition example_toMap :: arch_parser where
  "example_toMap s =
     (if s = example_comment then [''amd64'' \<mapsto> ''Y'', ''arm64'' \<mapsto> ''skip''] else Map.empty)"

definition example_lines :: "string list" where
  "example_lines = [''FROM X'', example_comment, ''ARG FOO'', ''RUN make'']"

definition example_env :: Context where
  "example_env =
     \<lparr>env_Source = ''/source/'', env_Cp = ''.'', env_Socket = True,
      env_Mode = (\<lambda>m. if m = [] then ''bind'' else m), env_Env = [''A=1''],
      env_RunArgs = [''--privileged''], env_Output = [''/out/result''],
      env_Shell = ''/bin/bash''\<rparr>"

text \<open>Accessors that read the source directory and one output path from the map.\<close>

definition example_accessors :: "(string \<rightharpoonup> string) \<Rightarrow> Context" where
  "example_accessors m =
     example_env
       \<lparr>env_Source := (case m ''DAPPER_SOURCE'' of Some v \<Rightarrow> v | None \<Rightarrow> ''/source/''),
        env_Output := (case m ''DAPPER_OUTPUT'' of Some v \<Rightarrow> [v] | None \<Rightarrow> [])\<rparr>"

definition example_host :: host where
  "example_host =
     \<lparr>toMap = example_toMap, environ = [''FOO'' \<mapsto> ''bar''], stdin = ([], None),
      open_file = (\<lambda>f. if f = ''Dockerfile.dapper'' then Inr (example_lines, None)
                         else Inl (SysError ''no such file'')),
      getwd = Inr ''/home/me/My_Proj'', git_output = ''feature/x\<newline>'',
      unicode_lower = (\<lambda>s. s), tag_rand = ''abcdef'', name_rand = ''ghijkl'',
      isatty = False, getuid = 1000, getgid = 100,
      vSocket = ''/var/run/docker.sock:/var/run/docker.sock'', GOARCH = ''amd64'',
      docker_run = (\<lambda>args. if take 1 args = [''cp''] then Some (SysError ''exit status 1'')
                             else None),
      docker_run_stdin = (\<lambda>p args. None),
      docker_output = (\<lambda>args. if take 1 args = [''inspect'']
                                then Inr ''[\"DAPPER_SOURCE=/source/\",\"DAPPER_OUTPUT=/out/result\"]''
                                else Inr ''amd64\<newline>''),
      json_strings = (\<lambda>out. Inr [''DAPPER_SOURCE=/source/'', ''DAPPER_OUTPUT=/out/result'']),
      accessors = example_accessors,
      tempfile = (\<lambda>content. Inr ''/tmp/dapper1''),
      remove_file = (\<lambda>f. None), mkdir_all = (\<lambda>dir. None),
      range_keys = (\<lambda>m. [''FOO''])\<rparr>"

definition example_d :: Dapperfile where
  "example_d =
     \<lparr>File = ''Dockerfile.dapper'', Mode = ''cp'', docker = ''/usr/bin/docker'',
      env = example_env, Socket = False, NoOut = False, Args = [''FOO'' \<mapsto> ''bar''],
      From = [], Quiet = False, Bake = False, CacheFrom = [''type=gha''],
      CacheTo = [''type=inline''], hostArch = ''amd64'', Keep = False, NoContext = False,
      MountSuffix = [], Target = []\<rparr>"

section \<open>Lemmas on the preprocessor loop\<close>

lemma from_not_comment: "isFromLine l \<Longrightarrow> \<not> HasPrefix l ''# FROM''"
  by (cases l) (auto simp: isFromLine_def HasPrefix_def)

lemma scan_loop_snoc_from:
  "isFromLine l \<Longrightarrow>
   scan_loop tm a None (pre @ [l]) buf =
     (case scan_loop tm a None pre buf of
        Inl e \<Rightarrow> Inl e
      | Inr out \<Rightarrow> Inr (out @ l @ ''\<newline>''))"
proof (induction tm a "None :: string option" pre buf rule: scan_loop.induct)
  case (1 tm a buf)
  then show ?case by simp
next
  case (2 tm a line rest buf)
  show ?case
  proof (cases "isFromLine line")
    case False
    with 2 show ?thesis by simp
  next
    case fl: True
    show ?thesis
    proof (cases rest)
      case Nil
      with fl 2(5) show ?thesis by (simp add: from_not_comment)
    next
      case (Cons n rest')
      with fl 2 show ?thesis by (auto split: option.splits)
    qed
  qed
qed

lemma scan_loop_append:
  "reaches tm a pre \<Longrightarrow>
   scan_loop tm a late (pre @ rest) buf =
     (case scan_loop tm a late pre buf of
        Inl e \<Rightarrow> Inl e
      | Inr out \<Rightarrow> scan_loop tm a late rest out)"
proof (induction tm a late pre buf rule: scan_loop.induct)
  case (1 tm a late buf)
  then show ?case by simp
next
  case (2 tm a late line rest' buf)
  show ?case
  proof (cases "isFromLine line")
    case False
    with 2 show ?thesis by simp
  next
    case fl: True
    with 2(5) obtain n r where r: "rest' = n # r" by (cases rest') auto
    with fl 2 show ?thesis by (auto split: option.splits)
  qed
qed

lemma scan_loop_grows: "scan_loop tm a late ls buf = Inr out \<Longrightarrow> \<exists>post. out = buf @ post"
proof (induction tm a late ls buf arbitrary: out rule: scan_loop.induct)
  case (1 tm a late buf)
  then show ?case by simp
next
  case (2 tm a late line rest' buf)
  show ?case
  proof (cases "isFromLine line")
    case False
    with 2 show ?thesis by fastforce
  next
    case fl: True
    show ?thesis
    proof (cases rest')
      case Nil
      with fl 2(5) show ?thesis by (auto split: option.splits)
    next
      case (Cons n r)
      with fl 2 show ?thesis by (fastforce split: option.splits if_splits)
    qed
  qed
qed

lemma reaches_Inr: "reaches tm a pre \<Longrightarrow> \<exists>out. scan_loop tm a late pre buf = Inr out"
proof (induction tm a late pre buf rule: scan_loop.induct)
  case (1 tm a late buf)
  then show ?case by simp
next
  case (2 tm a late line rest' buf)
  show ?case
  proof (cases "isFromLine line")
    case False
    with 2 show ?thesis by simp
  next
    case fl: True
    with 2(5) obtain n r where r: "rest' = n # r" by (cases rest') auto
    with fl 2 show ?thesis by (auto split: option.splits)
  qed
qed

lemma scan_loop_late:
  "reaches tm a pre \<Longrightarrow> scan_loop tm a late pre buf = scan_loop tm a None pre buf"
proof (induction tm a late pre buf rule: scan_loop.induct)
  case (1 tm a late buf)
  then show ?case by simp
next
  case (2 tm a late line rest' buf)
  show ?case
  proof (cases "isFromLine line")
    case False
    with 2 show ?thesis by simp
  next
    case fl: True
    with 2(5) obtain n r where r: "rest' = n # r" by (cases rest') auto
    with fl 2 show ?thesis by (auto split: option.splits)
  qed
qed

lemmas string_eval =
  isFromLine_def HasPrefix_def Fields_def asciiSpace_def space3_def
  example_comment_def example_toMap_def

lemmas reader_eval = dapperFile_def late_token_def scanner_Err_def

section \<open>A lemma on the graph build\<close>

lemma bake_submits:
  assumes "\<not> NoContext d"
  shows "ExecStdin (Json (bakefile_of d h args copy)) [''buildx'', ''bake'', ''-f'', ''-'']
           \<in> set (snd (snd (bake d h args copy)))"
proof -
  obtain r d' ev' where re: "readEnv d h (tag h) = (r, d', ev')"
    by (cases "readEnv d h (tag h)") auto
  show ?thesis
    using assms re
    by (cases "docker_run_stdin h (Json (bakefile_of d h args copy))
                 [''buildx'', ''bake'', ''-f'', ''-'']"; cases r)
       (simp_all add: bake_def Let_def)
qed

section \<open>The preprocessor: properties\<close>

text \<open>
  C9. When the input ends right after a single-token FROM line, and the lines before it
  raised no skip signal, \<open>dapperFile\<close> returns normally: its bytes are the output for the
  lines before, followed by that FROM line unchanged and a newline, and its error is nil.
\<close>

theorem eof_after_from:
  assumes "isFromLine line" and "scan_loop tm a None pre [] = Inr out"
  shows "dapperFile tm nc a (pre @ [line], None) (Inr (pre @ [line], None))
           = (out @ line @ ''\<newline>'', None)"
  using assms by (simp add: reader_eval scan_loop_snoc_from)

text \<open>An instance of C9: \<open>RUN make\<close> followed by \<open>FROM alpine\<close> at the end of the input.\<close>

theorem eof_after_from_witness:
  "isFromLine ''FROM alpine''
   \<and> scan_loop example_toMap ''amd64'' None [''RUN make''] [] = Inr ''RUN make\<newline>''
   \<and> dapperFile example_toMap False ''amd64'' ([''RUN make'', ''FROM alpine''], None)
        (Inr ([''RUN make'', ''FROM alpine''], None)) = (''RUN make\<newline>FROM alpine\<newline>'', None)"
proof -
  have a: "isFromLine ''FROM alpine''" by (simp add: string_eval)
  have b: "scan_loop example_toMap ''amd64'' None [''RUN make''] [] = Inr ''RUN make\<newline>''"
    by (simp add: string_eval)
  show ?thesis using a b eof_after_from [OF a b, of False] by simp
qed

text \<open>
  C10, as amended. When the loop examines a single-token FROM line \<open>l1\<close> (the lines
  \<open>pre\<close> before it are consumed in whole iterations, so \<open>l1\<close> is not itself a lookahead
  line): a second single-token FROM line \<open>l2\<close> after it is consumed as the lookahead and
  written unchanged, and a comment \<open>c\<close> after \<open>l2\<close> is written as an ordinary line,
  whatever the architecture map says. More generally any lookahead line \<open>n\<close> that is not
  a comment is written verbatim and the loop goes on with the line after it.
\<close>

theorem lookahead_line_verbatim:
  assumes "reaches tm a pre" and "scan_loop tm a late pre buf = Inr out" and "isFromLine l1"
  shows "(isFromLine l2 \<and> HasPrefix c ''# FROM'' \<longrightarrow>
            scan_loop tm a late (pre @ l1 # l2 # c # rest) buf
              = scan_loop tm a late rest
                  (out @ l1 @ ''\<newline>'' @ l2 @ ''\<newline>'' @ c @ ''\<newline>''))
       \<and> (\<not> HasPrefix n ''# FROM'' \<longrightarrow>
            scan_loop tm a late (pre @ l1 # n # rest) buf
              = scan_loop tm a late rest (out @ l1 @ ''\<newline>'' @ n @ ''\<newline>''))"
proof (intro conjI impI)
  assume h: "isFromLine l2 \<and> HasPrefix c ''# FROM''"
  then have nc: "\<not> HasPrefix l2 ''# FROM''" and nf: "\<not> isFromLine c"
    using from_not_comment by blast+
  show "scan_loop tm a late (pre @ l1 # l2 # c # rest) buf
              = scan_loop tm a late rest
                  (out @ l1 @ ''\<newline>'' @ l2 @ ''\<newline>'' @ c @ ''\<newline>'')"
    using assms nc nf by (simp add: scan_loop_append)
next
  assume "\<not> HasPrefix n ''# FROM''"
  then show "scan_loop tm a late (pre @ l1 # n # rest) buf
              = scan_loop tm a late rest (out @ l1 @ ''\<newline>'' @ n @ ''\<newline>'')"
    using assms by (simp add: scan_loop_append)
qed

text \<open>An instance of the amended C10: the map of the example comment is not applied to
  \<open>FROM X\<close>.\<close>

theorem lookahead_line_verbatim_witness:
  "reaches example_toMap ''amd64'' [''RUN make'']
   \<and> scan_loop example_toMap ''amd64'' None [''RUN make''] [] = Inr ''RUN make\<newline>''
   \<and> isFromLine ''FROM a'' \<and> isFromLine ''FROM X'' \<and> HasPrefix example_comment ''# FROM''
   \<and> \<not> HasPrefix ''FROM X'' ''# FROM''
   \<and> scan_loop example_toMap ''amd64'' None
        [''RUN make'', ''FROM a'', ''FROM X'', example_comment] []
       = Inr (''RUN make\<newline>FROM a\<newline>FROM X\<newline>'' @ example_comment @ ''\<newline>'')"
proof -
  have a: "reaches example_toMap ''amd64'' [''RUN make'']" by (simp add: string_eval)
  have b: "scan_loop example_toMap ''amd64'' None [''RUN make''] [] = Inr ''RUN make\<newline>''"
    by (simp add: string_eval)
  have c: "isFromLine ''FROM a''" by (simp add: string_eval)
  have d: "isFromLine ''FROM X'' \<and> HasPrefix example_comment ''# FROM''"
    by (simp add: string_eval)
  have e: "\<not> HasPrefix ''FROM X'' ''# FROM''" by (simp add: string_eval)
  from lookahead_line_verbatim [OF a b c, of "''FROM X''" example_comment "[]" "''FROM X''"] d
  have "scan_loop example_toMap ''amd64'' None
          ([''RUN make''] @ [''FROM a'', ''FROM X'', example_comment]) []
       = Inr (''RUN make\<newline>'' @ ''FROM a'' @ ''\<newline>'' @ ''FROM X'' @ ''\<newline>''
              @ example_comment @ ''\<newline>'')"
    by simp
  with a b c d e show ?thesis by simp
qed

text \<open>
  C10 as stated fails: in \<open>FROM a\<close>, \<open>FROM b\<close>, \<open>FROM X\<close>, comment, the line \<open>FROM b\<close> is a
  single-token FROM line followed by the single-token FROM line \<open>FROM X\<close> and the
  comment, but \<open>FROM b\<close> is itself the lookahead of \<open>FROM a\<close>; the loop then examines
  \<open>FROM X\<close> and applies the map to it.
\<close>

theorem lookahead_parity_counterexample:
  "isFromLine ''FROM a'' \<and> isFromLine ''FROM b'' \<and> isFromLine ''FROM X''
   \<and> HasPrefix example_comment ''# FROM''
   \<and> example_toMap example_comment ''amd64'' = Some ''Y''
   \<and> dapperFile example_toMap False ''amd64'' ([], None)
        (Inr ([''FROM a'', ''FROM b'', ''FROM X'', example_comment], None))
       = (''FROM a\<newline>FROM b\<newline>FROM Y\<newline># FROM {\"amd64\":\"Y\",\"arm64\":\"skip\"}\<newline>'', None)"
  by (simp add: reader_eval string_eval)

text \<open>
  C2. The claim fails on the code at the input \<open>FROM a\<close>, \<open>FROM X\<close>, comment, on
  \<open>amd64\<close>: the line \<open>FROM X\<close> has one image token and is followed by the comment that
  maps \<open>amd64\<close> to \<open>Y\<close>, but it is swallowed as the lookahead of \<open>FROM a\<close> and written
  unchanged, where the claim has \<open>FROM Y\<close>.
\<close>

theorem from_pair_after_from_unchanged:
  "isFromLine ''FROM X'' \<and> HasPrefix example_comment ''# FROM''
   \<and> example_toMap example_comment = [''amd64'' \<mapsto> ''Y'', ''arm64'' \<mapsto> ''skip'']
   \<and> dapperFile example_toMap False ''amd64'' ([], None)
        (Inr ([''FROM a'', ''FROM X'', example_comment], None))
       = (''FROM a\<newline>FROM X\<newline># FROM {\"amd64\":\"Y\",\"arm64\":\"skip\"}\<newline>'', None)"
  by (simp add: reader_eval string_eval)

text \<open>
  The same pair after any other line: when the loop examines the line \<open>FROM X\<close> (the
  lines \<open>pre\<close> before it are consumed in whole iterations), it does what the claim says.
  On \<open>arm64\<close> the result is the skip signal; on \<open>amd64\<close> the line written is \<open>FROM Y\<close>,
  on any other architecture \<open>FROM X\<close>; and whenever bytes are returned they hold that
  FROM line and then the comment line, after the output for the lines before.
\<close>

theorem from_pair_resolved:
  assumes "reaches tm a pre" and "scan_loop tm a None pre [] = Inr out"
    and "isFromLine (''FROM '' @ X)" and "HasPrefix c ''# FROM''"
    and "tm c = [''amd64'' \<mapsto> Y, ''arm64'' \<mapsto> ''skip'']" and "Y \<noteq> ''skip''"
    and "ls = pre @ (''FROM '' @ X) # c # rest"
    and "fl = (if a = ''amd64'' then ''FROM '' @ Y else ''FROM '' @ X)"
  shows "(a = ''arm64'' \<longrightarrow>
            dapperFile tm nc a (ls, stop) (Inr (ls, stop)) = ([], Some ErrSkipBuild))
       \<and> (a \<noteq> ''arm64'' \<longrightarrow>
            scan_loop tm a late ls []
              = scan_loop tm a late rest (out @ fl @ ''\<newline>'' @ c @ ''\<newline>''))
       \<and> (\<forall>bytes. a \<noteq> ''arm64''
              \<and> dapperFile tm nc a (ls, None) (Inr (ls, None)) = (bytes, None) \<longrightarrow>
            (\<exists>post. bytes = out @ fl @ ''\<newline>'' @ c @ ''\<newline>'' @ post))"
proof -
  have pre: "scan_loop tm a late pre [] = Inr out" for late
    using scan_loop_late [OF assms(1), of late "[]"] assms(2) by simp
  have step: "scan_loop tm a late ls [] =
      (if a = ''arm64'' then Inl ErrSkipBuild
       else scan_loop tm a late rest (out @ fl @ ''\<newline>'' @ c @ ''\<newline>''))" for late
    using assms pre by (simp add: scan_loop_append)
  have p3: "\<exists>post. bytes = out @ fl @ ''\<newline>'' @ c @ ''\<newline>'' @ post"
    if h: "a \<noteq> ''arm64''" "dapperFile tm nc a (ls, None) (Inr (ls, None)) = (bytes, None)"
    for bytes
  proof -
    from h step [of None]
    have "scan_loop tm a None rest (out @ fl @ ''\<newline>'' @ c @ ''\<newline>'') = Inr bytes"
      by (auto simp: reader_eval split: sum.splits)
    from scan_loop_grows [OF this] show ?thesis by simp
  qed
  from step p3 show ?thesis by (auto simp: reader_eval)
qed

text \<open>An instance on \<open>amd64\<close>.\<close>

theorem from_pair_resolved_witness:
  "reaches example_toMap ''amd64'' [''RUN make'']
   \<and> scan_loop example_toMap ''amd64'' None [''RUN make''] [] = Inr ''RUN make\<newline>''
   \<and> isFromLine (''FROM '' @ ''X'') \<and> HasPrefix example_comment ''# FROM''
   \<and> example_toMap example_comment = [''amd64'' \<mapsto> ''Y'', ''arm64'' \<mapsto> ''skip'']
   \<and> ''Y'' \<noteq> ''skip'' \<and> ''amd64'' \<noteq> ''arm64''
   \<and> scan_loop example_toMap ''amd64'' None
        [''RUN make'', ''FROM X'', example_comment, ''RUN ls''] []
       = Inr (''RUN make\<newline>FROM Y\<newline>'' @ example_comment @ ''\<newline>RUN ls\<newline>'')"
proof -
  have a: "reaches example_toMap ''amd64'' [''RUN make'']" by (simp add: string_eval)
  have b: "scan_loop example_toMap ''amd64'' None [''RUN make''] [] = Inr ''RUN make\<newline>''"
    by (simp add: string_eval)
  have c: "isFromLine (''FROM '' @ ''X'')" by (simp add: string_eval)
  have d: "HasPrefix example_comment ''# FROM''" by (simp add: string_eval)
  have e: "example_toMap example_comment = [''amd64'' \<mapsto> ''Y'', ''arm64'' \<mapsto> ''skip'']"
    by (simp add: example_toMap_def)
  have f: "''Y'' \<noteq> ''skip''" by simp
  have g: "scan_loop example_toMap ''amd64'' None [''RUN ls''] buf = Inr (buf @ ''RUN ls\<newline>'')"
    for buf by (simp add: string_eval)
  from from_pair_resolved [OF a b c d e f refl refl, where rest = "[''RUN ls'']" and late = None]
  show ?thesis using a b c d e g by simp
qed

text \<open>
  C6, as amended. In a classic build (graph-build mode never runs the preprocessor),
  when the loop examines a single-token FROM line whose comment maps the host
  architecture to \<open>skip\<close>, \<open>dapperFile\<close> returns \<open>ErrSkipBuild\<close>, and \<open>build\<close> and \<open>Run\<close>
  return it with no effect at all: no child process has been started. \<open>ErrSkipBuild\<close>
  differs from every other error.
\<close>

theorem skip_signal_stops_build:
  assumes "(if NoContext d then Inr (stdin h) else open_file h (File d))
             = Inr (pre @ l # c # rest, stop)"
    and "reaches (toMap h) (hostArch d) pre" and "isFromLine l" and "HasPrefix c ''# FROM''"
    and "toMap h c (hostArch d) = Some ''skip''" and "\<not> Bake d"
  shows "dapperFile (toMap h) (NoContext d) (hostArch d) (stdin h) (open_file h (File d))
           = ([], Some ErrSkipBuild)
       \<and> build d h args copy = (([], Some ErrSkipBuild), d, [])
       \<and> Run d h commandArgs = (Some ErrSkipBuild, d, [])
       \<and> (\<forall>m. ErrSkipBuild \<noteq> Errorf m \<and> ErrSkipBuild \<noteq> SysError m \<and> ErrSkipBuild \<noteq> Panic m)"
proof -
  obtain out where out: "scan_loop (toMap h) (hostArch d) (late_token stop) pre [] = Inr out"
    using reaches_Inr [OF assms(2)] by blast
  have loop: "scan_loop (toMap h) (hostArch d) (late_token stop) (pre @ l # c # rest) []
                = Inl ErrSkipBuild"
    using assms out by (simp add: scan_loop_append)
  have df: "dapperFile (toMap h) (NoContext d) (hostArch d) (stdin h) (open_file h (File d))
           = ([], Some ErrSkipBuild)"
    using assms(1) loop by (simp add: dapperFile_def)
  have b: "build d h args copy = (([], Some ErrSkipBuild), d, [])" for args copy
    using df assms(6) by (simp add: build_def buildLegacy_def)
  show ?thesis using df b by (simp add: Run_def)
qed

text \<open>An instance of the amended C6: the example Dockerfile on \<open>arm64\<close>.\<close>

theorem skip_signal_stops_build_witness:
  "Run (example_d\<lparr>hostArch := ''arm64''\<rparr>) example_host [''make'']
     = (Some ErrSkipBuild, example_d\<lparr>hostArch := ''arm64''\<rparr>, [])
   \<and> build (example_d\<lparr>hostArch := ''arm64''\<rparr>) example_host [] False
     = (([], Some ErrSkipBuild), example_d\<lparr>hostArch := ''arm64''\<rparr>, [])"
proof -
  let ?d = "example_d\<lparr>hostArch := ''arm64''\<rparr>"
  have a: "(if NoContext ?d then Inr (stdin example_host) else open_file example_host (File ?d))
            = Inr ([] @ ''FROM X'' # example_comment # [''ARG FOO'', ''RUN make''], None)"
    by (simp add: example_d_def example_host_def example_lines_def)
  have b: "reaches (toMap example_host) (hostArch ?d) []" by simp
  have c: "isFromLine ''FROM X''" by (simp add: string_eval)
  have d: "HasPrefix example_comment ''# FROM''" by (simp add: string_eval)
  have e: "toMap example_host example_comment (hostArch ?d) = Some ''skip''"
    by (simp add: example_host_def example_toMap_def)
  have f: "\<not> Bake ?d" by (simp add: example_d_def)
  from skip_signal_stops_build [OF a b c d e f] show ?thesis by blast
qed

text \<open>
  C6 as stated fails: in graph-build mode the preprocessor is never run. The example
  Dockerfile maps \<open>arm64\<close> to \<open>skip\<close>, and on \<open>arm64\<close> \<open>build\<close> still submits the graph to
  the backend and returns no error.
\<close>

theorem skip_unseen_by_bake_counterexample:
  "Bake (example_d\<lparr>Bake := True, hostArch := ''arm64''\<rparr>)
   \<and> open_file example_host (File (example_d\<lparr>Bake := True, hostArch := ''arm64''\<rparr>))
       = Inr ([''FROM X'', example_comment, ''ARG FOO'', ''RUN make''], None)
   \<and> isFromLine ''FROM X'' \<and> HasPrefix example_comment ''# FROM''
   \<and> toMap example_host example_comment ''arm64'' = Some ''skip''
   \<and> snd (fst (build (example_d\<lparr>Bake := True, hostArch := ''arm64''\<rparr>) example_host [] False))
       = None
   \<and> ExecStdin
        (Json (bakefile_of (example_d\<lparr>Bake := True, hostArch := ''arm64''\<rparr>) example_host [] False))
        [''buildx'', ''bake'', ''-f'', ''-'']
       \<in> set (snd (snd (build (example_d\<lparr>Bake := True, hostArch := ''arm64''\<rparr>)
                            example_host [] False)))"
proof -
  let ?d = "example_d\<lparr>Bake := True, hostArch := ''arm64''\<rparr>"
  have a: "Bake ?d" by simp
  have b: "open_file example_host (File ?d)
             = Inr ([''FROM X'', example_comment, ''ARG FOO'', ''RUN make''], None)"
    by (simp add: example_d_def example_host_def example_lines_def)
  have c: "isFromLine ''FROM X'' \<and> HasPrefix example_comment ''# FROM''"
    by (simp add: string_eval)
  have d: "toMap example_host example_comment ''arm64'' = Some ''skip''"
    by (simp add: example_host_def example_toMap_def)
  have e: "snd (fst (build ?d example_host [] False)) = None" by code_simp
  have n: "\<not> NoContext ?d" by (simp add: example_d_def)
  have f: "ExecStdin (Json (bakefile_of ?d example_host [] False)) [''buildx'', ''bake'', ''-f'', ''-'']
             \<in> set (snd (snd (build ?d example_host [] False)))"
    using bake_submits [OF n, of example_host "[]" False] by (simp add: build_def)
  from a b c d e f show ?thesis by blast
qed

section \<open>Graph build: properties\<close>

text \<open>
  C7. With contextless mode and graph-build mode together, \<open>build\<close>, \<open>Build\<close> and \<open>Run\<close>
  return the error \<open>contextless builds are not supported by buildkit\<close> with no effect at
  all: no child process is started and no graph is submitted.
\<close>

theorem contextless_bake_fails:
  assumes "NoContext d" and "Bake d"
  shows "build d h args copy
           = (([], Some (Errorf ''contextless builds are not supported by buildkit'')), d, [])
       \<and> Build d h args = (Some (Errorf ''contextless builds are not supported by buildkit''), d, [])
       \<and> Run d h commandArgs
           = (Some (Errorf ''contextless builds are not supported by buildkit''), d, [])"
  using assms by (simp add: build_def bake_def Build_def Run_def)

text \<open>An instance of C7.\<close>

theorem contextless_bake_fails_witness:
  "NoContext (example_d\<lparr>NoContext := True, Bake := True\<rparr>) \<and> Bake (example_d\<lparr>NoContext := True, Bake := True\<rparr>)
   \<and> Run (example_d\<lparr>NoContext := True, Bake := True\<rparr>) example_host [''make'']
       = (Some (Errorf ''contextless builds are not supported by buildkit''),
          example_d\<lparr>NoContext := True, Bake := True\<rparr>, [])"
proof -
  let ?d = "example_d\<lparr>NoContext := True, Bake := True\<rparr>"
  have a: "NoContext ?d" by simp
  have b: "Bake ?d" by simp
  from contextless_bake_fails [OF a b] show ?thesis using a b by blast
qed

text \<open>
  C1, as amended. When \<open>bake\<close> builds for a run and the mode is not bind, the graph it
  submits has a target \<open>stage2\<close> whose contexts are \<open>stage1 \<mapsto> target:stage1\<close> and whose
  tags, cache directives and outputs are those \<open>stage1\<close> was created with; in the same
  graph \<open>stage1\<close> has no tags and no cache directives, and its outputs are the one entry
  \<open>type=cacheonly\<close>.
\<close>

theorem stage2_wiring:
  assumes "\<not> NoContext d" and "copy" and "\<not> IsBind d"
    and "g = bakefile_of d h args copy"
    and "contextPath = (if length args > 0 then args ! 0 else ''.'')"
  shows "(\<exists>s1 t1 t2.
            Targets (stage1_bakefile d contextPath (tag h)) ''stage1'' = Some s1
          \<and> Targets g ''stage1'' = Some t1 \<and> Targets g ''stage2'' = Some t2
          \<and> t_Contexts t2 = [''stage1'' \<mapsto> ''target:stage1'']
          \<and> t_Tags t2 = t_Tags s1 \<and> t_Tags s1 = [tag h]
          \<and> t_CacheFrom t2 = t_CacheFrom s1 \<and> t_CacheFrom s1 = CacheFrom d
          \<and> t_CacheTo t2 = t_CacheTo s1 \<and> t_CacheTo s1 = CacheTo d
          \<and> t_Outputs t2 = t_Outputs s1 \<and> t_Outputs s1 = [''type=docker'']
          \<and> t_Tags t1 = [] \<and> t_CacheFrom t1 = [] \<and> t_CacheTo t1 = []
          \<and> t_Outputs t1 = [''type=cacheonly''])
       \<and> ExecStdin (Json g) [''buildx'', ''bake'', ''-f'', ''-'']
            \<in> set (snd (snd (bake d h args copy)))"
proof -
  have g: "g = add_stage2 d (stage1_bakefile d contextPath (tag h))"
    using assms by (simp add: bakefile_of_def)
  have ev: "ExecStdin (Json g) [''buildx'', ''bake'', ''-f'', ''-'']
            \<in> set (snd (snd (bake d h args copy)))"
    using assms(1,4) by (simp add: bake_submits)
  show ?thesis
    using ev by (simp add: g add_stage2_def stage1_bakefile_def zero_Target_def)
qed

text \<open>An instance of the amended C1.\<close>

theorem stage2_wiring_witness:
  "\<not> NoContext (example_d\<lparr>Bake := True\<rparr>) \<and> \<not> IsBind (example_d\<lparr>Bake := True\<rparr>)
   \<and> ExecStdin (Json (bakefile_of (example_d\<lparr>Bake := True\<rparr>) example_host [] True))
        [''buildx'', ''bake'', ''-f'', ''-'']
       \<in> set (snd (snd (bake (example_d\<lparr>Bake := True\<rparr>) example_host [] True)))"
proof -
  let ?d = "example_d\<lparr>Bake := True\<rparr>"
  have a: "\<not> NoContext ?d" by (simp add: example_d_def)
  have b: "\<not> IsBind ?d" by (simp add: IsBind_def example_d_def example_env_def)
  from stage2_wiring [OF a _ b refl refl, where copy = True and h = example_host and args = "[]"] a b show ?thesis by simp
qed

text \<open>C1 as stated fails: the outputs of \<open>stage1\<close> in the submitted graph are not
  empty.\<close>

theorem stage1_outputs_counterexample:
  "\<not> NoContext (example_d\<lparr>Bake := True\<rparr>) \<and> \<not> IsBind (example_d\<lparr>Bake := True\<rparr>)
   \<and> map_option t_Outputs
        (Targets (bakefile_of (example_d\<lparr>Bake := True\<rparr>) example_host [] True) ''stage1'')
       = Some [''type=cacheonly'']
   \<and> map_option t_Outputs
        (Targets (bakefile_of (example_d\<lparr>Bake := True\<rparr>) example_host [] True) ''stage1'')
       \<noteq> Some []"
  by (simp add: bakefile_of_def IsBind_def example_d_def example_env_def add_stage2_def
        stage1_bakefile_def Let_def)

section \<open>Run arguments: properties\<close>

lemma fold_append_pairs:
  "fold (\<lambda>e a. a @ [k, e]) xs args = args @ concat (map (\<lambda>e. [k, e]) xs)"
  by (induction xs arbitrary: args) auto

text \<open>
  C3, as amended. The argument vector of \<open>runArgs\<close> is, in this order: \<open>-i --name name\<close>;
  \<open>-t\<close> if standard output is a terminal; the socket mount if the configuration or the
  override asks for it; the bind mount if bind mode applies and the working directory
  is known; the \<open>DAPPER_UID\<close> and \<open>DAPPER_GID\<close> variables; the extra variables of the
  configuration; the entrypoint and \<open>TERM\<close> if a shell is given; the run flags of the
  configuration; the tag; and the trailing command, or \<open>-\<close> exactly when a shell is given
  and there is no trailing command.
\<close>

theorem runArgs_order:
  "runArgs d h tg shell commandArgs =
     (takeWhile (\<lambda>c. c \<noteq> CHR '':'') tg @ ''-'' @ name_rand h,
      [''-i'', ''--name'', takeWhile (\<lambda>c. c \<noteq> CHR '':'') tg @ ''-'' @ name_rand h]
      @ (if isatty h then [''-t''] else [])
      @ (if env_Socket (env d) \<or> Socket d then [''-v'', vSocket h] else [])
      @ (if IsBind d then
           (case getwd h of
              Inr wd \<Rightarrow> [''-v'', wd @ ''/'' @ env_Cp (env d) @ '':'' @ env_Source (env d)
                                 @ (if MountSuffix d \<noteq> [] then '':'' @ MountSuffix d else [])]
            | Inl err \<Rightarrow> [])
         else [])
      @ [''-e'', ''DAPPER_UID='' @ show_int (getuid h), ''-e'', ''DAPPER_GID='' @ show_int (getgid h)]
      @ concat (map (\<lambda>e. [''-e'', e]) (env_Env (env d)))
      @ (if shell \<noteq> [] then [''--entrypoint'', shell, ''-e'', ''TERM''] else [])
      @ env_RunArgs (env d)
      @ [tg]
      @ (if shell \<noteq> [] \<and> commandArgs = [] then [''-''] else commandArgs))"
  by (simp add: runArgs_def Let_def fold_append_pairs split: sum.splits)

text \<open>An instance of the amended C3: a shell, in bind mode.\<close>

theorem runArgs_order_witness:
  "IsBind (example_d\<lparr>Mode := ''bind''\<rparr>)
   \<and> runArgs (example_d\<lparr>Mode := ''bind''\<rparr>) example_host ''my_proj:feature-x'' ''/bin/bash'' [] =
     (''my_proj-ghijkl'',
      [''-i'', ''--name'', ''my_proj-ghijkl'',
       ''-v'', ''/var/run/docker.sock:/var/run/docker.sock'',
       ''-v'', ''/home/me/My_Proj/.:/source/'',
       ''-e'', ''DAPPER_UID=1000'', ''-e'', ''DAPPER_GID=100'', ''-e'', ''A=1'',
       ''--entrypoint'', ''/bin/bash'', ''-e'', ''TERM'', ''--privileged'',
       ''my_proj:feature-x'', ''-''])"
proof -
  have u: "show_int 1000 = ''1000''" "show_int 100 = ''100''" by code_simp+
  have b: "IsBind (example_d\<lparr>Mode := ''bind''\<rparr>)"
    by (simp add: IsBind_def example_d_def example_env_def)
  show ?thesis
    using b u runArgs_order [of "example_d\<lparr>Mode := ''bind''\<rparr>" example_host
        "''my_proj:feature-x''" "''/bin/bash''" "[]"]
    by (simp add: example_d_def example_host_def example_env_def)
qed

text \<open>C3 as stated fails: in bind mode, when the working directory cannot be read,
  there is no bind mount among the arguments.\<close>

theorem bind_mount_counterexample:
  "IsBind (example_d\<lparr>Mode := ''bind''\<rparr>)
   \<and> runArgs (example_d\<lparr>Mode := ''bind''\<rparr>) (example_host\<lparr>getwd := Inl (SysError ''getwd'')\<rparr>)
        ''my_proj:feature-x'' [] [''make''] =
     (''my_proj-ghijkl'',
      [''-i'', ''--name'', ''my_proj-ghijkl'',
       ''-v'', ''/var/run/docker.sock:/var/run/docker.sock'',
       ''-e'', ''DAPPER_UID=1000'', ''-e'', ''DAPPER_GID=100'', ''-e'', ''A=1'',
       ''--privileged'', ''my_proj:feature-x'', ''make''])"
proof -
  have u: "show_int 1000 = ''1000''" "show_int 100 = ''100''" by code_simp+
  show ?thesis
    using u by (simp add: runArgs_def IsBind_def example_d_def example_host_def example_env_def Let_def)
qed

section \<open>Build arguments: properties\<close>

lemma args_loop_Cons:
  "\<exists>r' a'. args_loop h (t # ls) (r, a) = args_loop h ls (r', a')
     \<and> (\<forall>k. r' k =
           (if declares_arg t k
               \<and> (if k = ''DAPPER_HOST_ARCH'' \<and> Getenv (environ h) k = [] then findHostArch h
                   else Getenv (environ h) k) \<noteq> []
            then Some (if k = ''DAPPER_HOST_ARCH'' \<and> Getenv (environ h) k = [] then findHostArch h
                       else Getenv (environ h) k)
            else r k))"
proof (cases "\<not> length (Fields (TrimSpace t)) \<le> 1 \<and> Fields (TrimSpace t) ! 0 = ''ARG''")
  case False
  then have "args_loop h (t # ls) (r, a) = args_loop h ls (r, a)"
    by (auto simp: Let_def)
  moreover from False have "\<not> declares_arg t k" for k
    by (auto simp: declares_arg_def Let_def)
  ultimately show ?thesis by auto
next
  case True
  define key where "key = before_eq (Fields (TrimSpace t) ! 1)"
  define val where "val = (if key = ''DAPPER_HOST_ARCH'' \<and> Getenv (environ h) key = []
                           then findHostArch h else Getenv (environ h) key)"
  define r' where "r' = (if val \<noteq> [] then r(key \<mapsto> val) else r)"
  define a' where "a' = (if key = ''DAPPER_HOST_ARCH'' then val else a)"
  have step: "args_loop h (t # ls) (r, a) = args_loop h ls (r', a')"
    using True by (simp add: Let_def key_def val_def r'_def a'_def)
  have decl: "declares_arg t k \<longleftrightarrow> k = key" for k
    using True by (auto simp: declares_arg_def Let_def key_def)
  have "r' k =
           (if declares_arg t k
               \<and> (if k = ''DAPPER_HOST_ARCH'' \<and> Getenv (environ h) k = [] then findHostArch h
                   else Getenv (environ h) k) \<noteq> []
            then Some (if k = ''DAPPER_HOST_ARCH'' \<and> Getenv (environ h) k = [] then findHostArch h
                       else Getenv (environ h) k)
            else r k)" for k
    unfolding decl by (cases "k = key") (simp_all add: r'_def val_def)
  with step show ?thesis by blast
qed

lemma args_loop_key:
  "k \<noteq> ''DAPPER_HOST_ARCH'' \<Longrightarrow>
   fst (args_loop h ls (r, a)) k =
     (if (\<exists>t \<in> set ls. declares_arg t k) \<and> Getenv (environ h) k \<noteq> []
      then Some (Getenv (environ h) k) else r k)"
proof (induction ls arbitrary: r a)
  case Nil
  then show ?case by simp
next
  case (Cons t ls)
  from args_loop_Cons [of h t ls r a] obtain r' a' where
    step: "args_loop h (t # ls) (r, a) = args_loop h ls (r', a')" and
    r': "r' k = (if declares_arg t k \<and> Getenv (environ h) k \<noteq> []
                 then Some (Getenv (environ h) k) else r k)"
    using Cons.prems by auto
  show ?case
    unfolding step Cons.IH [OF Cons.prems] r' by auto
qed

lemma args_loop_nonempty:
  "\<forall>k. r k \<noteq> Some [] \<Longrightarrow> fst (args_loop h ls (r, a)) k \<noteq> Some []"
proof (induction ls arbitrary: r a)
  case Nil
  then show ?case by simp
next
  case (Cons t ls)
  from args_loop_Cons [of h t ls r a] obtain r' a' where
    step: "args_loop h (t # ls) (r, a) = args_loop h ls (r', a')" and
    r': "\<And>k. r' k =
           (if declares_arg t k
               \<and> (if k = ''DAPPER_HOST_ARCH'' \<and> Getenv (environ h) k = [] then findHostArch h
                   else Getenv (environ h) k) \<noteq> []
            then Some (if k = ''DAPPER_HOST_ARCH'' \<and> Getenv (environ h) k = [] then findHostArch h
                       else Getenv (environ h) k)
            else r k)"
    by blast
  have "\<forall>k. r' k \<noteq> Some []"
  proof
    fix k show "r' k \<noteq> Some []"
      using Cons.prems by (subst r') (simp split: if_splits)
  qed
  from Cons.IH [OF this] show ?case unfolding step .
qed

text \<open>
  C4. When a line of the Dockerfile declares \<open>ARG key\<close>, for any name but the special
  \<open>DAPPER_HOST_ARCH\<close> (so for \<open>FOO\<close>): if the host environment has a non-empty value for
  the name, the map of \<open>argsFromEnv\<close> has that value for it; if the name is unset, the map
  has no entry for it; and no entry of the map is the empty string.
\<close>

theorem declared_arg_from_env:
  assumes "open_file h f = Inr (ls, e)" and "t \<in> set ls" and "declares_arg t key"
    and "key \<noteq> ''DAPPER_HOST_ARCH''"
  shows "\<exists>r d'. argsFromEnv d h f = (Inr r, d')
           \<and> (\<forall>v. environ h key = Some v \<and> v \<noteq> [] \<longrightarrow> r key = Some v)
           \<and> (environ h key = None \<longrightarrow> r key = None)
           \<and> (\<forall>k. r k \<noteq> Some [])"
proof -
  obtain r a where ra: "args_loop h ls (Map.empty, hostArch d) = (r, a)"
    by (cases "args_loop h ls (Map.empty, hostArch d)") auto
  have eq: "argsFromEnv d h f = (Inr r, d\<lparr>hostArch := a\<rparr>)"
    using assms(1) ra by (simp add: argsFromEnv_def)
  have key: "r key = (if Getenv (environ h) key \<noteq> [] then Some (Getenv (environ h) key) else None)"
    using args_loop_key [OF assms(4), of h ls Map.empty "hostArch d"] ra assms(2,3) by auto
  have ne: "\<forall>k. r k \<noteq> Some []"
    using args_loop_nonempty [of Map.empty h ls "hostArch d"] ra by simp
  have k1: "\<forall>v. environ h key = Some v \<and> v \<noteq> [] \<longrightarrow> r key = Some v"
    using key by (simp add: Getenv_def)
  have k2: "environ h key = None \<longrightarrow> r key = None"
    using key by (simp add: Getenv_def)
  show ?thesis
    by (intro exI [of _ r] exI [of _ "d\<lparr>hostArch := a\<rparr>"] conjI eq k1 k2 ne)
qed

text \<open>An instance of C4: \<open>ARG FOO\<close> with \<open>FOO=bar\<close> in the environment.\<close>

theorem declared_arg_from_env_witness:
  "open_file example_host ''Dockerfile.dapper'' = Inr (example_lines, None)
   \<and> ''ARG FOO'' \<in> set example_lines \<and> declares_arg ''ARG FOO'' ''FOO''
   \<and> environ example_host ''FOO'' = Some ''bar''
   \<and> (\<exists>r d'. argsFromEnv example_d example_host ''Dockerfile.dapper'' = (Inr r, d')
              \<and> r ''FOO'' = Some ''bar'')"
proof -
  have a: "open_file example_host ''Dockerfile.dapper'' = Inr (example_lines, None)"
    by (simp add: example_host_def)
  have b: "''ARG FOO'' \<in> set example_lines" by (simp add: example_lines_def)
  have c: "declares_arg ''ARG FOO'' ''FOO''" by code_simp
  have d: "''FOO'' \<noteq> ''DAPPER_HOST_ARCH''" by simp
  have e: "environ example_host ''FOO'' = Some ''bar''" by (simp add: example_host_def)
  from declared_arg_from_env [OF a b c d, of example_d] obtain r d' where
    "argsFromEnv example_d example_host ''Dockerfile.dapper'' = (Inr r, d')"
    "\<forall>v. environ example_host ''FOO'' = Some v \<and> v \<noteq> [] \<longrightarrow> r ''FOO'' = Some v"
    by blast
  with e have "argsFromEnv example_d example_host ''Dockerfile.dapper'' = (Inr r, d') \<and> r ''FOO'' = Some ''bar''"
    by simp
  with a b c e show ?thesis by blast
qed

section \<open>The tag: properties\<close>

lemma re_replace_chars: "c \<in> set (re_replace s) \<Longrightarrow> alnum c \<or> c = CHR ''-''"
  by (induction s rule: re_replace.induct) (auto split: if_splits)

lemma rune_width_ascii: "(of_char c :: nat) < 0x80 \<Longrightarrow> rune_width (c # cs) = 1"
  by (simp add: Let_def)

lemma re_replace_ascii:
  "isASCII s \<Longrightarrow> re_replace s = map (\<lambda>c. if alnum c then c else CHR ''-'') s"
proof (induction s)
  case Nil
  then show ?case by simp
next
  case (Cons c cs)
  then have "(of_char c :: nat) < 0x80" and "isASCII cs" by (simp_all add: isASCII_def)
  with Cons.IH show ?case by (simp add: rune_width_ascii del: rune_width.simps)
qed

lemma lower_byte_not_upper: "\<not> upper (lower_byte c)"
  by (auto simp: upper_def lower_byte_def)

lemma lower_byte_tag_char: "tag_char (lower_byte c) = tag_char c"
  by (auto simp: tag_char_def alnum_def lower_byte_def Let_def)

lemma rune_tail_not_alnum:
  "c \<in> set (take (rune_width (a # s) - 1) s) \<Longrightarrow> \<not> alnum c"
  apply (simp add: Let_def split: if_splits list.splits)
  apply (auto simp: accepts_def cont_def alnum_def Let_def split: if_splits)
  done

lemma filter_drop_not:
  assumes "\<And>c. c \<in> set (take n s) \<Longrightarrow> \<not> P c"
  shows "filter P (drop n s) = filter P s"
proof -
  have "filter P s = filter P (take n s) @ filter P (drop n s)"
    by (metis append_take_drop_id filter_append)
  moreover have "filter P (take n s) = []"
    using assms by (simp add: filter_empty_conv)
  ultimately show ?thesis by simp
qed

lemma re_replace_keeps_alnum: "filter alnum (re_replace s) = filter alnum s"
proof (induction s rule: re_replace.induct)
  case 1
  then show ?case by simp
next
  case (2 c cs)
  show ?case
  proof (cases "alnum c")
    case True
    with 2 show ?thesis by simp
  next
    case False
    have d: "\<not> alnum (CHR ''-'')" by (simp add: alnum_def)
    have "filter alnum (drop (rune_width (c # cs) - 1) cs) = filter alnum cs"
      by (rule filter_drop_not) (rule rune_tail_not_alnum)
    with False 2 d show ?thesis by (simp del: rune_width.simps)
  qed
qed

text \<open>
  C5, as amended. The tag is the lower-cased directory name, a colon, and the sanitised
  ref. The ref is the trimmed output of the branch query, and the random token exactly
  when that output is empty. The sanitised ref has only characters of \<open>[A-Za-z0-9-]\<close>
  and keeps the letters and digits of the ref in their order; for an ASCII ref it is the
  ref with every character outside \<open>[A-Za-z0-9]\<close> replaced by \<open>-\<close>. An ASCII directory
  name is lower-cased byte by byte and keeps no upper-case letter. The directory name is
  not sanitised: for an ASCII directory name, the whole tag has only characters of
  \<open>[A-Za-z0-9:-]\<close> exactly when the directory name has.
\<close>

theorem tag_shape:
  "tag h = ToLower (unicode_lower h) (tag_dir h) @ '':'' @ re_replace (tag_ref h)
   \<and> (TrimSpace (git_output h) = [] \<longrightarrow> tag_ref h = tag_rand h)
   \<and> (TrimSpace (git_output h) \<noteq> [] \<longrightarrow> tag_ref h = TrimSpace (git_output h))
   \<and> (\<forall>c \<in> set (re_replace (tag_ref h)). alnum c \<or> c = CHR ''-'')
   \<and> filter alnum (re_replace (tag_ref h)) = filter alnum (tag_ref h)
   \<and> (isASCII (tag_ref h) \<longrightarrow>
        re_replace (tag_ref h) = map (\<lambda>c. if alnum c then c else CHR ''-'') (tag_ref h))
   \<and> (isASCII (tag_dir h) \<longrightarrow>
        ToLower (unicode_lower h) (tag_dir h) = map lower_byte (tag_dir h)
        \<and> (\<forall>c \<in> set (map lower_byte (tag_dir h)). \<not> upper c))
   \<and> (isASCII (tag_dir h) \<longrightarrow>
        ((\<forall>c \<in> set (tag h). tag_char c) \<longleftrightarrow> (\<forall>c \<in> set (tag_dir h). tag_char c)))"
proof -
  have shape: "tag h = ToLower (unicode_lower h) (tag_dir h) @ '':'' @ re_replace (tag_ref h)"
    by (simp add: tag_def tag_dir_def tag_ref_def Let_def)
  have ref: "\<forall>c \<in> set (re_replace (tag_ref h)). alnum c \<or> c = CHR ''-''"
    using re_replace_chars by blast
  have low: "isASCII (tag_dir h) \<longrightarrow>
        ToLower (unicode_lower h) (tag_dir h) = map lower_byte (tag_dir h)
        \<and> (\<forall>c \<in> set (map lower_byte (tag_dir h)). \<not> upper c)"
    by (auto simp: ToLower_def lower_byte_not_upper)
  have all: "(\<forall>c \<in> set (tag h). tag_char c) \<longleftrightarrow> (\<forall>c \<in> set (tag_dir h). tag_char c)"
    if "isASCII (tag_dir h)"
  proof -
    have low': "ToLower (unicode_lower h) (tag_dir h) = map lower_byte (tag_dir h)"
      using that by (simp add: ToLower_def)
    have colon: "tag_char (CHR '':'')" by (simp add: tag_char_def)
    have "(\<forall>c \<in> set (tag h). tag_char c)
            \<longleftrightarrow> (\<forall>c \<in> set (map lower_byte (tag_dir h)). tag_char c)"
      unfolding shape low' using ref colon by (auto simp: tag_char_def)
    then show ?thesis by (simp add: lower_byte_tag_char)
  qed
  show ?thesis
    using shape ref low all re_replace_ascii re_replace_keeps_alnum by (simp add: tag_ref_def)
qed

text \<open>An instance of the amended C5: directory \<open>MyProj\<close>, branch \<open>feature/x\<close>.\<close>

theorem tag_shape_witness:
  "isASCII (tag_dir (example_host\<lparr>getwd := Inr ''/src/MyProj''\<rparr>))
   \<and> list_all tag_char (tag_dir (example_host\<lparr>getwd := Inr ''/src/MyProj''\<rparr>))
   \<and> TrimSpace (git_output (example_host\<lparr>getwd := Inr ''/src/MyProj''\<rparr>)) = ''feature/x''
   \<and> isASCII (tag_ref (example_host\<lparr>getwd := Inr ''/src/MyProj''\<rparr>))
   \<and> tag (example_host\<lparr>getwd := Inr ''/src/MyProj''\<rparr>) = ''myproj:feature-x''
   \<and> list_all tag_char (tag (example_host\<lparr>getwd := Inr ''/src/MyProj''\<rparr>))"
proof -
  let ?h = "example_host\<lparr>getwd := Inr ''/src/MyProj''\<rparr>"
  have a: "isASCII (tag_dir ?h)" by code_simp
  have b: "\<forall>c \<in> set (tag_dir ?h). tag_char c" by code_simp
  have c: "tag ?h = ''myproj:feature-x''" by code_simp
  have d: "TrimSpace (git_output ?h) = ''feature/x''" by code_simp
  have e: "isASCII (tag_ref ?h)" by code_simp
  from tag_shape [of ?h] a b have "\<forall>c \<in> set (tag ?h). tag_char c" by blast
  with a b c d e show ?thesis by (simp add: list_all_iff)
qed

text \<open>
  C5 as stated fails. With the directory \<open>My_Proj\<close> and the branch \<open>feature/x\<close> the tag
  keeps the underscore of the directory name. And when the branch is unavailable because
  the head is detached, the query prints \<open>HEAD\<close> and the ref is \<open>HEAD\<close>, not the random
  token.
\<close>

theorem tag_charset_counterexample:
  "getwd example_host = Inr ''/home/me/My_Proj'' \<and> git_output example_host = ''feature/x\<newline>''
   \<and> tag example_host = ''my_proj:feature-x''
   \<and> CHR ''_'' \<in> set (tag example_host) \<and> \<not> tag_char (CHR ''_'')
   \<and> tag (example_host\<lparr>git_output := ''HEAD\<newline>''\<rparr>) = ''my_proj:HEAD''"
proof -
  have a: "getwd example_host = Inr ''/home/me/My_Proj'' \<and> git_output example_host = ''feature/x\<newline>''"
    by (simp add: example_host_def)
  have b: "tag example_host = ''my_proj:feature-x''" by code_simp
  have c: "\<not> tag_char (CHR ''_'')" by (simp add: tag_char_def alnum_def)
  have d: "tag (example_host\<lparr>git_output := ''HEAD\<newline>''\<rparr>) = ''my_proj:HEAD''" by code_simp
  from a b c d show ?thesis by simp
qed

section \<open>Running: properties\<close>

lemma run_cleanup_no_copy: "e \<in> set (run_cleanup d h name) \<Longrightarrow> \<not> is_copy_event e"
  by (auto simp: run_cleanup_def split: if_splits sum.splits)

lemma copy_back_ok:
  "\<forall>i \<in> set outs. mkdir_all h (path_Dir i) = None \<Longrightarrow>
   fst (copy_back h name source outs) = None
   \<and> (\<forall>i \<in> set outs.
        MkdirAll (path_Dir i) \<in> set (snd (copy_back h name source outs))
        \<and> Exec [''cp'', name @ '':'' @ (if \<not> HasPrefix i ''/'' then path_Join [source, i] else i),
                 path_Dir i] \<in> set (snd (copy_back h name source outs))
        \<and> (\<forall>err. docker_run h [''cp'',
                       name @ '':'' @ (if \<not> HasPrefix i ''/'' then path_Join [source, i] else i),
                       path_Dir i] = Some err \<longrightarrow>
               Debugf (''Error copying back '' @ [CHR 0x27] @ i @ [CHR 0x27] @ '': '' @ Error err)
                 \<in> set (snd (copy_back h name source outs))))"
proof (induction outs)
  case Nil
  then show ?case by simp
next
  case (Cons i outs)
  then have m: "mkdir_all h (path_Dir i) = None" and
    ih: "fst (copy_back h name source outs) = None
   \<and> (\<forall>i \<in> set outs.
        MkdirAll (path_Dir i) \<in> set (snd (copy_back h name source outs))
        \<and> Exec [''cp'', name @ '':'' @ (if \<not> HasPrefix i ''/'' then path_Join [source, i] else i),
                 path_Dir i] \<in> set (snd (copy_back h name source outs))
        \<and> (\<forall>err. docker_run h [''cp'',
                       name @ '':'' @ (if \<not> HasPrefix i ''/'' then path_Join [source, i] else i),
                       path_Dir i] = Some err \<longrightarrow>
               Debugf (''Error copying back '' @ [CHR 0x27] @ i @ [CHR 0x27] @ '': '' @ Error err)
                 \<in> set (snd (copy_back h name source outs))))"
    by simp_all
  obtain r ev' where rest: "copy_back h name source outs = (r, ev')"
    by (cases "copy_back h name source outs") auto
  show ?case
    using m ih unfolding rest
    by (auto simp: Let_def rest split: option.splits)
qed

text \<open>
  C8. After a successful build, in bind mode \<open>Run\<close> returns what the run command returned
  and nothing after the build creates a directory or copies, whatever the output list
  is. When the mode is not bind, output is not disabled, the run command succeeded and
  every directory can be created, \<open>Run\<close> returns no error; for each output path the
  directory is created and the path is copied with \<open>cp\<close>, and a failing copy is logged.
\<close>

theorem copy_back_rules:
  assumes "build d0 h [] True = ((tg, None), d, ev)"
    and "runArgs d h tg [] commandArgs = (name, args)"
  shows "(IsBind d \<longrightarrow>
            Run d0 h commandArgs
              = (docker_run h (''run'' # args), d,
                 ev @ [Debugf (''Running build in '' @ tg), Exec (''run'' # args)]
                    @ run_cleanup d h name)
            \<and> (\<forall>e \<in> set ([Debugf (''Running build in '' @ tg), Exec (''run'' # args)]
                            @ run_cleanup d h name). \<not> is_copy_event e))
       \<and> (\<not> IsBind d \<and> \<not> NoOut d \<and> docker_run h (''run'' # args) = None
            \<and> (\<forall>i \<in> set (env_Output (env d)). mkdir_all h (path_Dir i) = None) \<longrightarrow>
            (\<exists>ev'. Run d0 h commandArgs
                     = (None, d,
                        ev @ [Debugf (''Running build in '' @ tg), Exec (''run'' # args)]
                           @ ev' @ run_cleanup d h name)
                 \<and> (\<forall>i \<in> set (env_Output (env d)).
                       MkdirAll (path_Dir i) \<in> set ev'
                       \<and> Exec [''cp'', name @ '':'' @ (if \<not> HasPrefix i ''/''
                                                       then path_Join [env_Source (env d), i] else i),
                                path_Dir i] \<in> set ev'
                       \<and> (\<forall>err. docker_run h [''cp'', name @ '':'' @ (if \<not> HasPrefix i ''/''
                                                       then path_Join [env_Source (env d), i] else i),
                                path_Dir i] = Some err \<longrightarrow>
                              Debugf (''Error copying back '' @ [CHR 0x27] @ i @ [CHR 0x27]
                                      @ '': '' @ Error err) \<in> set ev'))))"
proof (intro conjI impI)
  assume b: "IsBind d"
  show "Run d0 h commandArgs
              = (docker_run h (''run'' # args), d,
                 ev @ [Debugf (''Running build in '' @ tg), Exec (''run'' # args)]
                    @ run_cleanup d h name)"
    using assms b by (simp add: Run_def Let_def split: option.splits)
  show "\<forall>e \<in> set ([Debugf (''Running build in '' @ tg), Exec (''run'' # args)]
                            @ run_cleanup d h name). \<not> is_copy_event e"
    using run_cleanup_no_copy by auto
next
  assume h: "\<not> IsBind d \<and> \<not> NoOut d \<and> docker_run h (''run'' # args) = None
            \<and> (\<forall>i \<in> set (env_Output (env d)). mkdir_all h (path_Dir i) = None)"
  obtain r ev' where cb: "copy_back h name (env_Source (env d)) (env_Output (env d)) = (r, ev')"
    by (cases "copy_back h name (env_Source (env d)) (env_Output (env d))") auto
  from h have "\<forall>i \<in> set (env_Output (env d)). mkdir_all h (path_Dir i) = None" by blast
  from copy_back_ok [OF this, of name "env_Source (env d)"] cb
  have r: "r = None" and
    evs: "\<forall>i \<in> set (env_Output (env d)).
                       MkdirAll (path_Dir i) \<in> set ev'
                       \<and> Exec [''cp'', name @ '':'' @ (if \<not> HasPrefix i ''/''
                                                       then path_Join [env_Source (env d), i] else i),
                                path_Dir i] \<in> set ev'
                       \<and> (\<forall>err. docker_run h [''cp'', name @ '':'' @ (if \<not> HasPrefix i ''/''
                                                       then path_Join [env_Source (env d), i] else i),
                                path_Dir i] = Some err \<longrightarrow>
                              Debugf (''Error copying back '' @ [CHR 0x27] @ i @ [CHR 0x27]
                                      @ '': '' @ Error err) \<in> set ev')"
    by simp_all
  have run: "Run d0 h commandArgs
                     = (None, d,
                        ev @ [Debugf (''Running build in '' @ tg), Exec (''run'' # args)]
                           @ ev' @ run_cleanup d h name)"
    using assms h cb r by (simp add: Run_def Let_def)
  from run evs show "\<exists>ev'. Run d0 h commandArgs
                     = (None, d,
                        ev @ [Debugf (''Running build in '' @ tg), Exec (''run'' # args)]
                           @ ev' @ run_cleanup d h name)
                 \<and> (\<forall>i \<in> set (env_Output (env d)).
                       MkdirAll (path_Dir i) \<in> set ev'
                       \<and> Exec [''cp'', name @ '':'' @ (if \<not> HasPrefix i ''/''
                                                       then path_Join [env_Source (env d), i] else i),
                                path_Dir i] \<in> set ev'
                       \<and> (\<forall>err. docker_run h [''cp'', name @ '':'' @ (if \<not> HasPrefix i ''/''
                                                       then path_Join [env_Source (env d), i] else i),
                                path_Dir i] = Some err \<longrightarrow>
                              Debugf (''Error copying back '' @ [CHR 0x27] @ i @ [CHR 0x27]
                                      @ '': '' @ Error err) \<in> set ev'))"
    by blast
qed

text \<open>Two instances of C8: the example in copy mode, where the copy command fails,
  and in bind mode.\<close>

theorem copy_back_rules_witness:
  "\<not> IsBind (fst (snd (build example_d example_host [] True)))
   \<and> env_Output (env (fst (snd (build example_d example_host [] True)))) = [''/out/result'']
   \<and> docker_run example_host [''cp'', ''my_proj-ghijkl:/out/result'', ''/out'']
       = Some (SysError ''exit status 1'')
   \<and> fst (Run example_d example_host [''make'']) = None
   \<and> Exec [''cp'', ''my_proj-ghijkl:/out/result'', ''/out'']
       \<in> set (snd (snd (Run example_d example_host [''make''])))
   \<and> Debugf (''Error copying back '' @ [CHR 0x27] @ ''/out/result'' @ [CHR 0x27]
              @ '': exit status 1'')
       \<in> set (snd (snd (Run example_d example_host [''make''])))
   \<and> IsBind (fst (snd (build (example_d\<lparr>Mode := ''bind''\<rparr>) example_host [] True)))
   \<and> env_Output (env (fst (snd (build (example_d\<lparr>Mode := ''bind''\<rparr>) example_host [] True))))
       = [''/out/result'']
   \<and> fst (Run (example_d\<lparr>Mode := ''bind''\<rparr>) example_host [''make'']) = None
   \<and> list_all (\<lambda>e. \<not> is_copy_event e)
         (drop (length (snd (snd (build (example_d\<lparr>Mode := ''bind''\<rparr>) example_host [] True))))
               (snd (snd (Run (example_d\<lparr>Mode := ''bind''\<rparr>) example_host [''make'']))))"
proof -
  let ?h = example_host
  let ?b = "build example_d ?h [] True"
  let ?tg = "fst (fst ?b)" and ?d = "fst (snd ?b)" and ?ev = "snd (snd ?b)"
  let ?ra = "runArgs ?d ?h ?tg [] [''make'']"
  have ok: "snd (fst ?b) = None" by code_simp
  have b: "?b = ((?tg, None), ?d, ?ev)"
    by (metis ok prod.collapse)
  have ra: "?ra = (fst ?ra, snd ?ra)" by simp
  have nb: "\<not> IsBind ?d" by code_simp
  have out: "env_Output (env ?d) = [''/out/result'']" by code_simp
  have no: "\<not> NoOut ?d" by code_simp
  have run: "docker_run ?h (''run'' # snd ?ra) = None" by code_simp
  have mk: "\<forall>i \<in> set (env_Output (env ?d)). mkdir_all ?h (path_Dir i) = None"
    by (simp add: example_host_def)
  have nm: "fst ?ra = ''my_proj-ghijkl''" by code_simp
  have dir: "path_Dir ''/out/result'' = ''/out''" by code_simp
  have pre: "HasPrefix ''/out/result'' ''/''" by code_simp
  have cp: "docker_run ?h [''cp'', ''my_proj-ghijkl:/out/result'', ''/out'']
       = Some (SysError ''exit status 1'')" by (simp add: example_host_def)
  from copy_back_rules [OF b ra] nb no run mk
  obtain ev' where
    r: "Run example_d ?h [''make'']
          = (None, ?d, ?ev @ [Debugf (''Running build in '' @ ?tg), Exec (''run'' # snd ?ra)]
                        @ ev' @ run_cleanup ?d ?h (fst ?ra))" and
    e: "\<forall>i \<in> set (env_Output (env ?d)).
          MkdirAll (path_Dir i) \<in> set ev'
          \<and> Exec [''cp'', fst ?ra @ '':'' @ (if \<not> HasPrefix i ''/''
                                            then path_Join [env_Source (env ?d), i] else i),
                   path_Dir i] \<in> set ev'
          \<and> (\<forall>err. docker_run ?h [''cp'', fst ?ra @ '':'' @ (if \<not> HasPrefix i ''/''
                                            then path_Join [env_Source (env ?d), i] else i),
                   path_Dir i] = Some err \<longrightarrow>
                 Debugf (''Error copying back '' @ [CHR 0x27] @ i @ [CHR 0x27]
                         @ '': '' @ Error err) \<in> set ev')"
    by blast
  from e out nm dir pre cp
  have e1: "Exec [''cp'', ''my_proj-ghijkl:/out/result'', ''/out''] \<in> set ev'"
    and e2: "Debugf (''Error copying back '' @ [CHR 0x27] @ ''/out/result'' @ [CHR 0x27]
              @ '': exit status 1'') \<in> set ev'"
    by auto
  have part1: "fst (Run example_d ?h [''make'']) = None
   \<and> Exec [''cp'', ''my_proj-ghijkl:/out/result'', ''/out'']
       \<in> set (snd (snd (Run example_d ?h [''make''])))
   \<and> Debugf (''Error copying back '' @ [CHR 0x27] @ ''/out/result'' @ [CHR 0x27]
              @ '': exit status 1'')
       \<in> set (snd (snd (Run example_d ?h [''make''])))"
    unfolding r using e1 e2 by simp
  let ?d0 = "example_d\<lparr>Mode := ''bind''\<rparr>"
  let ?b' = "build ?d0 ?h [] True"
  let ?tg' = "fst (fst ?b')" and ?d' = "fst (snd ?b')" and ?ev' = "snd (snd ?b')"
  let ?ra' = "runArgs ?d' ?h ?tg' [] [''make'']"
  have ok': "snd (fst ?b') = None" by code_simp
  have b': "?b' = ((?tg', None), ?d', ?ev')"
    by (metis ok' prod.collapse)
  have ra': "?ra' = (fst ?ra', snd ?ra')" by simp
  have bd: "IsBind ?d'" by code_simp
  have out': "env_Output (env ?d') = [''/out/result'']" by code_simp
  have run': "docker_run ?h (''run'' # snd ?ra') = None" by code_simp
  from copy_back_rules [OF b' ra'] bd
  have r': "Run ?d0 ?h [''make'']
              = (docker_run ?h (''run'' # snd ?ra'), ?d',
                 ?ev' @ [Debugf (''Running build in '' @ ?tg'), Exec (''run'' # snd ?ra')]
                    @ run_cleanup ?d' ?h (fst ?ra'))"
    and n': "\<forall>e \<in> set ([Debugf (''Running build in '' @ ?tg'), Exec (''run'' # snd ?ra')]
                            @ run_cleanup ?d' ?h (fst ?ra')). \<not> is_copy_event e"
    by blast+
  have part2: "fst (Run ?d0 ?h [''make'']) = None
      \<and> (\<forall>e \<in> set (drop (length ?ev') (snd (snd (Run ?d0 ?h [''make''])))). \<not> is_copy_event e)"
    unfolding r' using run' n' by simp
  from nb out cp part1 bd out' part2 show ?thesis by (simp add: list_all_iff)
qed

end
